theory Spec2Isabelle
  imports Main
begin

section \<open>JavaScript primitives used by the time-tracking code\<close>

text \<open>
  Durations and epoch instants are integral millisecond counts; they are modelled as
  \<^typ>\<open>int\<close>. \<open>Math.floor(a / b)\<close> on such values with \<open>b > 0\<close> is \<open>a div b\<close>.
  The remainder operator \<open>%\<close> of JavaScript truncates towards zero (the result takes
  the sign of the dividend).
\<close>

definition js_rem :: "int \<Rightarrow> int \<Rightarrow> int" where
  "js_rem a b = sgn a * (\<bar>a\<bar> mod \<bar>b\<bar>)"

text \<open>Decimal rendering of an integer inside a template literal.\<close>

fun showNat :: "nat \<Rightarrow> string" where
  "showNat n = (if n < 10 then [''0123456789'' ! n]
                else showNat (n div 10) @ [''0123456789'' ! (n mod 10)])"

declare showNat.simps [simp del]

definition showInt :: "int \<Rightarrow> string" where
  "showInt i = (if i < 0 then CHR ''-'' # showNat (nat (- i)) else showNat (nat i))"

text \<open>\<open>String.prototype.trim\<close>, on the ASCII white space characters.\<close>

definition isWhiteSpace :: "char \<Rightarrow> bool" where
  "isWhiteSpace c \<longleftrightarrow>
     c = CHR '' '' \<or> c = CHR 0x09 \<or> c = CHR 0x0A \<or> c = CHR 0x0B \<or> c = CHR 0x0C \<or> c = CHR 0x0D"

definition trim :: "string \<Rightarrow> string" where
  "trim s = rev (dropWhile isWhiteSpace (rev (dropWhile isWhiteSpace s)))"

text \<open>\<open>Array.prototype.join\<close>.\<close>

fun joinWith :: "string \<Rightarrow> string list \<Rightarrow> string" where
  "joinWith sep [] = ''''"
| "joinWith sep [x] = x"
| "joinWith sep (x # y # rest) = x @ sep @ joinWith sep (y # rest)"

section \<open>Duration formatter (tools/timetracking.ts)\<close>

text \<open>
  \<open>formatDuration(ms)\<close>: \<open>if (!ms) return '0m'\<close>, then days, hours and minutes by
  successive floor divisions; the day part is appended when \<open>days > 0\<close>, the hour part
  when \<open>remainingHours > 0 || days > 0\<close>, the minute part when
  \<open>remainingMinutes > 0 || result === ''\<close>; the result is trimmed.
\<close>

definition formatDuration :: "int \<Rightarrow> string" where
  "formatDuration ms =
     (if ms = 0 then ''0m''
      else
        let seconds = ms div 1000;
            minutes = seconds div 60;
            hours = minutes div 60;
            days = hours div 24;
            remainingHours = js_rem hours 24;
            remainingMinutes = js_rem minutes 60;
            result0 = '''';
            result1 = (if days > 0 then result0 @ showInt days @ ''d '' else result0);
            result2 = (if remainingHours > 0 \<or> days > 0
                       then result1 @ showInt remainingHours @ ''h '' else result1);
            result3 = (if remainingMinutes > 0 \<or> result2 = ''''
                       then result2 @ showInt remainingMinutes @ ''m'' else result2)
        in trim result3)"

text \<open>
  The units that appear in the result for a non-negative duration: days and hours when
  there is at least one day, else hours when there is at least one hour; then minutes
  when they are not zero or when nothing else appears.
\<close>

definition renderedUnits :: "int \<Rightarrow> string list" where
  "renderedUnits ms =
     (let days = ms div 86400000;
          hours = ms div 3600000 mod 24;
          minutes = ms div 60000 mod 60
      in (if 0 < days then [showInt days @ ''d'', showInt hours @ ''h'']
          else if 0 < hours then [showInt hours @ ''h'']
          else []) @
         (if 0 < minutes \<or> (days = 0 \<and> hours = 0) then [showInt minutes @ ''m''] else []))"

section \<open>Errors\<close>

text \<open>
  Values that the code throws or catches: a plain \<open>Error\<close>, a \<open>TypeError\<close> raised by
  reading a property of \<open>undefined\<close>/\<open>null\<close>, a transport error that may carry
  \<open>error.response.status\<close>, and the service layer's \<open>ClickUpServiceError\<close>. Each carries
  its message. A computation that can throw returns \<open>exn + 'a\<close>, with \<open>Inl\<close> the thrown
  value.
\<close>

datatype exn =
    Error string
  | TypeError string
  | AxiosError string "int option"
  | ClickUpServiceError string

fun message :: "exn \<Rightarrow> string" where
  "message (Error m) = m"
| "message (TypeError m) = m"
| "message (AxiosError m _) = m"
| "message (ClickUpServiceError m) = m"

section \<open>Local calendar (the platform's \<open>Date\<close>)\<close>

text \<open>
  A \<open>Date\<close> is its epoch value in milliseconds. The local time zone is a parameter: a
  \<open>calendar\<close> gives the local fields of an instant and \<open>makeDate y m d t\<close>, the instant
  of \<open>new Date(y, m, d, ...)\<close> with \<open>t\<close> the milliseconds after local midnight (month and
  day out of range are normalised by the platform). \<open>toLocaleString\<close> is the platform's
  rendering.
\<close>

record calendar =
  getFullYear :: "int \<Rightarrow> int"
  getMonth :: "int \<Rightarrow> int"
  getDate :: "int \<Rightarrow> int"
  getDay :: "int \<Rightarrow> int"
  timeWithinDay :: "int \<Rightarrow> int"
  makeDate :: "int \<Rightarrow> int \<Rightarrow> int \<Rightarrow> int \<Rightarrow> int"
  toLocaleString :: "int \<Rightarrow> string"

text \<open>\<open>d.setDate(n)\<close> keeps year, month and time of day; \<open>d.setHours(23, 59, 59, 999)\<close>
  keeps the day.\<close>

definition setDate :: "calendar \<Rightarrow> int \<Rightarrow> int \<Rightarrow> int" where
  "setDate cal d n = makeDate cal (getFullYear cal d) (getMonth cal d) n (timeWithinDay cal d)"

definition setHours_endOfDay :: "calendar \<Rightarrow> int \<Rightarrow> int" where
  "setHours_endOfDay cal d = makeDate cal (getFullYear cal d) (getMonth cal d) (getDate cal d) 86399999"

text \<open>
  A concrete calendar for evaluation: the proleptic Gregorian calendar in UTC. Day numbers
  count from 1970-01-01; the conversions work on 400-year eras that start on 1 March, and
  count months from 1.
\<close>

definition dfc_year :: "int \<Rightarrow> int \<Rightarrow> int" where
  "dfc_year y m = (if m \<le> 2 then y - 1 else y)"

definition dfc_doy :: "int \<Rightarrow> int \<Rightarrow> int" where
  "dfc_doy m d = (153 * (if m > 2 then m - 3 else m + 9) + 2) div 5 + d - 1"

definition days_from_civil :: "int \<Rightarrow> int \<Rightarrow> int \<Rightarrow> int" where
  "days_from_civil y m d =
     (dfc_year y m div 400) * 146097
       + ((dfc_year y m mod 400) * 365 + (dfc_year y m mod 400) div 4
            - (dfc_year y m mod 400) div 100 + dfc_doy m d)
       - 719468"

definition civil_era :: "int \<Rightarrow> int" where
  "civil_era z = (z + 719468) div 146097"

definition civil_doe :: "int \<Rightarrow> int" where
  "civil_doe z = (z + 719468) mod 146097"

definition civil_yoe :: "int \<Rightarrow> int" where
  "civil_yoe z =
     (civil_doe z - civil_doe z div 1460 + civil_doe z div 36524 - civil_doe z div 146096) div 365"

definition civil_doy :: "int \<Rightarrow> int" where
  "civil_doy z = civil_doe z - (365 * civil_yoe z + civil_yoe z div 4 - civil_yoe z div 100)"

definition civil_mp :: "int \<Rightarrow> int" where
  "civil_mp z = (5 * civil_doy z + 2) div 153"

definition civil_day :: "int \<Rightarrow> int" where
  "civil_day z = civil_doy z - (153 * civil_mp z + 2) div 5 + 1"

definition civil_month :: "int \<Rightarrow> int" where
  "civil_month z = (if civil_mp z < 10 then civil_mp z + 3 else civil_mp z - 9)"

definition civil_year :: "int \<Rightarrow> int" where
  "civil_year z = civil_yoe z + civil_era z * 400 + (if civil_month z \<le> 2 then 1 else 0)"

definition utc_toLocaleString :: "int \<Rightarrow> string" where
  "utc_toLocaleString t =
     showInt (civil_month (t div 86400000)) @ ''/'' @ showInt (civil_day (t div 86400000)) @ ''/'' @
     showInt (civil_year (t div 86400000)) @ '', '' @
     showInt (t mod 86400000 div 3600000) @ '':'' @
     showInt (t mod 3600000 div 60000) @ '':'' @
     showInt (t mod 60000 div 1000)"

definition utc_calendar :: calendar where
  "utc_calendar =
     \<lparr> getFullYear = (\<lambda>t. civil_year (t div 86400000)),
       getMonth = (\<lambda>t. civil_month (t div 86400000) - 1),
       getDate = (\<lambda>t. civil_day (t div 86400000)),
       getDay = (\<lambda>t. (t div 86400000 + 4) mod 7),
       timeWithinDay = (\<lambda>t. t mod 86400000),
       makeDate = (\<lambda>y m d t.
         (days_from_civil (y + m div 12) (m mod 12 + 1) 1 + d - 1) * 86400000 + t),
       toLocaleString = utc_toLocaleString \<rparr>"

section \<open>Date ranges\<close>

subsection \<open>\<open>getDateRangeForPeriod\<close> of tools/timetracking.ts\<close>

record DateRange =
  start_date :: int
  end_date :: int

text \<open>
  \<open>now\<close> is the value of \<open>new Date()\<close> at the call. The \<open>switch\<close> has six cases; its
  \<open>default\<close> throws \<open>Error(`Invalid period: ${period}`)\<close>.
\<close>

definition getDateRangeForPeriod :: "calendar \<Rightarrow> int \<Rightarrow> string \<Rightarrow> exn + DateRange" where
  "getDateRangeForPeriod cal now period =
     (let today = makeDate cal (getFullYear cal now) (getMonth cal now) (getDate cal now) 0;
          result = \<lparr> start_date = 0, end_date = now \<rparr>
      in if period = ''today'' then
           Inr (result \<lparr> start_date := today \<rparr>)
         else if period = ''yesterday'' then
           (let yesterday = setDate cal today (getDate cal today - 1)
            in Inr (result \<lparr> start_date := yesterday, end_date := today - 1 \<rparr>))
         else if period = ''this_week'' then
           (let startOfWeek = setDate cal today (getDate cal today - getDay cal today)
            in Inr (result \<lparr> start_date := startOfWeek \<rparr>))
         else if period = ''last_week'' then
           (let lastWeekStart = setDate cal today (getDate cal today - getDay cal today - 7);
                lastWeekEnd0 = setDate cal today (getDate cal today - getDay cal today - 1);
                lastWeekEnd = setHours_endOfDay cal lastWeekEnd0
            in Inr (result \<lparr> start_date := lastWeekStart, end_date := lastWeekEnd \<rparr>))
         else if period = ''this_month'' then
           (let startOfMonth = makeDate cal (getFullYear cal now) (getMonth cal now) 1 0
            in Inr (result \<lparr> start_date := startOfMonth \<rparr>))
         else if period = ''last_month'' then
           (let startOfLastMonth = makeDate cal (getFullYear cal now) (getMonth cal now - 1) 1 0;
                endOfLastMonth = makeDate cal (getFullYear cal now) (getMonth cal now) 0 86399999
            in Inr (result \<lparr> start_date := startOfLastMonth, end_date := endOfLastMonth \<rparr>))
         else Inl (Error (''Invalid period: '' @ period)))"

subsection \<open>The summary handler's own \<open>getDateRangeForPeriod\<close>\<close>

text \<open>
  The module of \<open>handleGetTimeTrackingSummary\<close> has a private function of the same name.
  It returns the bounds as decimal strings (\<open>getTime().toString()\<close>), its \<open>yesterday\<close>
  case ends at \<open>today.getTime()\<close>, and its \<open>default\<close> case returns the range of
  \<open>today\<close>.
\<close>

record DateRangeText =
  start_text :: string
  end_text :: string

definition summary_getDateRangeForPeriod :: "calendar \<Rightarrow> int \<Rightarrow> string \<Rightarrow> DateRangeText" where
  "summary_getDateRangeForPeriod cal now period =
     (let today = makeDate cal (getFullYear cal now) (getMonth cal now) (getDate cal now) 0
      in if period = ''today'' then
           \<lparr> start_text = showInt today, end_text = showInt now \<rparr>
         else if period = ''yesterday'' then
           (let yesterday = setDate cal today (getDate cal today - 1)
            in \<lparr> start_text = showInt yesterday, end_text = showInt today \<rparr>)
         else if period = ''this_week'' then
           (let day = getDay cal today;
                firstDayOfWeek = setDate cal today (getDate cal today - day)
            in \<lparr> start_text = showInt firstDayOfWeek, end_text = showInt now \<rparr>)
         else if period = ''last_week'' then
           (let day = getDay cal today;
                firstDayOfLastWeek = setDate cal today (getDate cal today - day - 7);
                lastDayOfLastWeek0 = setDate cal firstDayOfLastWeek (getDate cal firstDayOfLastWeek + 6);
                lastDayOfLastWeek = setHours_endOfDay cal lastDayOfLastWeek0
            in \<lparr> start_text = showInt firstDayOfLastWeek, end_text = showInt lastDayOfLastWeek \<rparr>)
         else if period = ''this_month'' then
           (let firstDayOfMonth = makeDate cal (getFullYear cal today) (getMonth cal today) 1 0
            in \<lparr> start_text = showInt firstDayOfMonth, end_text = showInt now \<rparr>)
         else if period = ''last_month'' then
           (let firstDayOfLastMonth = makeDate cal (getFullYear cal today) (getMonth cal today - 1) 1 0;
                lastDayOfLastMonth0 = makeDate cal (getFullYear cal today) (getMonth cal today) 0 0;
                lastDayOfLastMonth = setHours_endOfDay cal lastDayOfLastMonth0
            in \<lparr> start_text = showInt firstDayOfLastMonth, end_text = showInt lastDayOfLastMonth \<rparr>)
         else \<lparr> start_text = showInt today, end_text = showInt now \<rparr>)"

text \<open>
  The first statements of \<open>handleGetTimeTrackingSummary\<close>: for \<open>period === 'custom'\<close>
  both bounds must be truthy (\<open>if (!start_date || !end_date) throw ...\<close>) and are taken
  as given; any other period goes to the function above. An absent parameter is \<open>None\<close>;
  the empty string is falsy too.
\<close>

definition truthy :: "string option \<Rightarrow> bool" where
  "truthy v = (case v of None \<Rightarrow> False | Some s \<Rightarrow> s \<noteq> '''')"

definition summary_dateRange ::
  "calendar \<Rightarrow> int \<Rightarrow> string \<Rightarrow> string option \<Rightarrow> string option \<Rightarrow> exn + DateRangeText" where
  "summary_dateRange cal now period start_param end_param =
     (if period = ''custom'' then
        (if \<not> truthy start_param \<or> \<not> truthy end_param
         then Inl (Error ''Custom period requires both start_date and end_date'')
         else Inr \<lparr> start_text = the start_param, end_text = the end_param \<rparr>)
      else Inr (summary_getDateRangeForPeriod cal now period))"

section \<open>Time reports and percentages\<close>

text \<open>
  The raw report (\<open>TimeReport\<close>): one record per user with the user-level \<open>time\<close> and
  the \<open>tasks\<close> object, given here as the list of its entries in the order \<open>for ... in\<close>
  visits them. \<open>report && report.data\<close> being falsy is \<open>None\<close>.
\<close>

record TaskData =
  td_id :: string
  td_name :: string
  td_time :: int

record UserData =
  ud_time :: int
  ud_tasks :: "(string \<times> TaskData) list"

type_synonym TimeReport = "UserData list option"

subsection \<open>Double-precision arithmetic of the percentages\<close>

text \<open>
  The numbers of the program are IEEE 754 binary64 values. A finite one is \<open>Float m e\<close>,
  the number \<open>m * 2 ^ e\<close> with an integer significand of at most 53 bits and an exponent
  \<open>e \<ge> -1074\<close>; the others are \<open>NaN\<close> and the two infinities. The times of a report
  are integers that a double holds exactly.
\<close>

datatype float64 = Float int int | NotANumber | PlusInfinity | MinusInfinity

text \<open>The number of binary digits of a natural number.\<close>

fun bitLength :: "nat \<Rightarrow> nat" where
  "bitLength n = (if n = 0 then 0 else Suc (bitLength (n div 2)))"

declare bitLength.simps [simp del]

text \<open>
  The integer nearest to \<open>n / d\<close> for \<open>n \<ge> 0\<close> and \<open>d > 0\<close>, a tie going to the even
  neighbour; and the exponent of the leading binary digit of \<open>n / d\<close> for positive \<open>n\<close>
  and \<open>d\<close>, that is \<open>\<lfloor>log\<^sub>2 (n / d)\<rfloor>\<close>.
\<close>

definition roundHalfEven :: "int \<Rightarrow> int \<Rightarrow> int" where
  "roundHalfEven n d =
     (let q = n div d; r = n mod d
      in if 2 * r < d then q else if d < 2 * r then q + 1 else if even q then q else q + 1)"

definition leadingExponent :: "int \<Rightarrow> int \<Rightarrow> int" where
  "leadingExponent n d =
     (let e0 = int (bitLength (nat n)) - int (bitLength (nat d))
      in if (if 0 \<le> e0 then d * 2 ^ nat e0 \<le> n else d \<le> n * 2 ^ nat (- e0)) then e0
         else e0 - 1)"

text \<open>
  The double nearest to the fraction \<open>n / d\<close> (\<open>d > 0\<close>), as every arithmetic operation
  rounds its exact result: the significand keeps 53 binary digits (fewer below
  \<open>2 ^ -1022\<close>, where the exponent stays at \<open>-1074\<close>), a tie goes to the even significand,
  and a result that reaches \<open>2 ^ 1024\<close> is an infinity.
\<close>

definition nearest64 :: "int \<Rightarrow> int \<Rightarrow> float64" where
  "nearest64 n d =
     (if n = 0 then Float 0 0
      else
        (let a = \<bar>n\<bar>;
             e = max (leadingExponent a d - 52) (- 1074);
             m = (if 0 \<le> e then roundHalfEven a (d * 2 ^ nat e)
                  else roundHalfEven (a * 2 ^ nat (- e)) d)
         in if 0 \<le> e \<and> 2 ^ 1024 \<le> m * 2 ^ nat e
            then (if 0 < n then PlusInfinity else MinusInfinity)
            else Float (if 0 < n then m else - m) e))"

text \<open>
  \<open>x / y\<close> for two integers. Division by zero does not throw in JavaScript: \<open>0 / 0\<close> is
  \<open>NaN\<close> and \<open>x / 0\<close> is \<open>Infinity\<close> or \<open>-Infinity\<close> with the sign of \<open>x\<close>.
\<close>

definition divide64 :: "int \<Rightarrow> int \<Rightarrow> float64" where
  "divide64 x y =
     (if y = 0 then (if x = 0 then NotANumber else if 0 < x then PlusInfinity else MinusInfinity)
      else if 0 < y then nearest64 x y
      else nearest64 (- x) (- y))"

text \<open>\<open>x * k\<close> for a double \<open>x\<close> and an integer \<open>k\<close>.\<close>

definition times64 :: "float64 \<Rightarrow> int \<Rightarrow> float64" where
  "times64 x k =
     (case x of
        Float m e \<Rightarrow>
          (if 0 \<le> e then nearest64 (m * k * 2 ^ nat e) 1 else nearest64 (m * k) (2 ^ nat (- e)))
      | NotANumber \<Rightarrow> NotANumber
      | PlusInfinity \<Rightarrow>
          (if k = 0 then NotANumber else if 0 < k then PlusInfinity else MinusInfinity)
      | MinusInfinity \<Rightarrow>
          (if k = 0 then NotANumber else if 0 < k then MinusInfinity else PlusInfinity))"

text \<open>
  \<open>Math.round\<close> gives the integer nearest to its argument, a tie going up
  (\<open>\<lfloor>x + 1/2\<rfloor>\<close>), and leaves \<open>NaN\<close> and the infinities as they are. Its results are the
  values of type \<open>jsnum\<close>.
\<close>

datatype jsnum = Finite int | NaN | PosInfinity | NegInfinity

definition Math_round :: "float64 \<Rightarrow> jsnum" where
  "Math_round x =
     (case x of
        Float m e \<Rightarrow>
          Finite (if 0 \<le> e then m * 2 ^ nat e
                  else (m + 2 ^ (nat (- e) - 1)) div 2 ^ nat (- e))
      | NotANumber \<Rightarrow> NaN
      | PlusInfinity \<Rightarrow> PosInfinity
      | MinusInfinity \<Rightarrow> NegInfinity)"

text \<open>
  The value of \<open>Math.round((part / whole) * 100)\<close>: the quotient is rounded to a double,
  the product with 100 is rounded again, and the result is rounded to an integer. There
  is no guard for \<open>whole = 0\<close>.
\<close>

definition percentOf :: "int \<Rightarrow> int \<Rightarrow> jsnum" where
  "percentOf part whole = Math_round (times64 (divide64 part whole) 100)"

text \<open>
  Both handlers return the text of \<open>JSON.stringify\<close>. In that text a finite number is
  written as its numeral, and \<open>NaN\<close>, \<open>Infinity\<close> and \<open>-Infinity\<close> are written \<open>null\<close>.
  \<open>JsonNumber n\<close> stands for the numeral of \<open>n\<close>.
\<close>

datatype json_number = JsonNull | JsonNumber int

definition JSON_stringify_number :: "jsnum \<Rightarrow> json_number" where
  "JSON_stringify_number x = (case x of Finite n \<Rightarrow> JsonNumber n | _ \<Rightarrow> JsonNull)"

subsection \<open>\<open>getTimeTrackingReportTool.handler\<close> (tools/timetracking.ts)\<close>

record TaskTimeSummary =
  ts_taskId :: string
  ts_taskName :: string
  ts_time :: int
  ts_timeFormatted :: string
  ts_percentage :: jsnum

record ReportResult =
  rr_period :: string
  rr_date_range :: DateRange
  rr_total_time :: string
  rr_tasks :: "TaskTimeSummary list"

text \<open>
  The inner loop pushes one summary per task of the current user; the percentage divides
  by \<open>totalTime\<close> as it stands at that moment, that is after the current user's \<open>time\<close>
  has been added.
\<close>

definition reportTask :: "int \<Rightarrow> string \<times> TaskData \<Rightarrow> TaskTimeSummary" where
  "reportTask totalTime entry =
     (let taskData = snd entry
      in \<lparr> ts_taskId = td_id taskData, ts_taskName = td_name taskData, ts_time = td_time taskData,
           ts_timeFormatted = formatDuration (td_time taskData),
           ts_percentage = percentOf (td_time taskData) totalTime \<rparr>)"

fun reportUsers :: "int \<Rightarrow> TaskTimeSummary list \<Rightarrow> UserData list \<Rightarrow> int \<times> TaskTimeSummary list" where
  "reportUsers totalTime taskSummaries [] = (totalTime, taskSummaries)"
| "reportUsers totalTime taskSummaries (userData # rest) =
     (let totalTime' = totalTime + ud_time userData
      in reportUsers totalTime' (taskSummaries @ map (reportTask totalTime') (ud_tasks userData)) rest)"

text \<open>
  The handler has no \<open>try\<close>: an exception of the range computation or of the report
  fetch leaves it. \<open>sort((a, b) => b.time - a.time)\<close> is a stable sort by descending time.
  The response carries the formatted total only; the bounds are kept as numbers here
  (the code prints them with \<open>toISOString\<close>).
\<close>

definition getTimeTrackingReport_handler ::
  "calendar \<Rightarrow> int \<Rightarrow> (DateRange \<Rightarrow> exn + TimeReport) \<Rightarrow> string \<Rightarrow> exn + ReportResult" where
  "getTimeTrackingReport_handler cal now getTimeTrackingReport period =
     (case getDateRangeForPeriod cal now period of
        Inl e \<Rightarrow> Inl e
      | Inr dateRange \<Rightarrow>
          (case getTimeTrackingReport dateRange of
             Inl e \<Rightarrow> Inl e
           | Inr report \<Rightarrow>
               (let (totalTime, taskSummaries) =
                      (case report of None \<Rightarrow> (0, []) | Some data \<Rightarrow> reportUsers 0 [] data)
                in Inr \<lparr> rr_period = period, rr_date_range = dateRange,
                         rr_total_time = formatDuration totalTime,
                         rr_tasks = sort_key (\<lambda>s. - ts_time s) taskSummaries \<rparr>)))"

subsection \<open>\<open>handleGetTimeTrackingSummary\<close>\<close>

text \<open>
  Collaborators of the summary handler: the report fetch, \<open>taskService.getTask\<close> and
  \<open>timeTrackingService.getTimeEntries\<close>. Of a task detail the handler reads the name and
  the owning list and space; of a time entry \<open>parseInt(entry.start)\<close> and
  \<open>entry.duration ? parseInt(entry.duration) : 0\<close>, so an entry is given by its parsed
  start and its parsed duration (\<open>None\<close> when the field is falsy).
\<close>

record TaskDetail =
  tk_name :: string
  tk_list_id :: string
  tk_list_name :: string
  tk_space_id :: string
  tk_space_name :: string

record EntryTimes =
  en_start :: int
  en_duration :: "int option"

record summary_env =
  getTimeTrackingReport :: "DateRangeText \<Rightarrow> exn + TimeReport"
  getTask :: "string \<Rightarrow> exn + TaskDetail"
  getTimeEntries :: "string \<Rightarrow> DateRangeText \<Rightarrow> exn + EntryTimes list"

text \<open>
  \<open>summaryItems\<close> and the \<open>tasks\<close> object of each item are association lists in
  insertion order. \<open>alist_ensure\<close> is \<open>if (!obj[k]) obj[k] = v\<close> (a stored value is an
  object, hence truthy); \<open>alist_modify\<close> updates the value stored under a key.
\<close>

record TaskAcc =
  ta_id :: string
  ta_name :: string
  ta_time :: int

record SummaryItem =
  si_groupName :: string
  si_time :: int
  si_tasks :: "(string \<times> TaskAcc) list"

definition alist_ensure :: "'k \<Rightarrow> 'v \<Rightarrow> ('k \<times> 'v) list \<Rightarrow> ('k \<times> 'v) list" where
  "alist_ensure k v al = (if map_of al k = None then al @ [(k, v)] else al)"

fun alist_modify :: "'k \<Rightarrow> ('v \<Rightarrow> 'v) \<Rightarrow> ('k \<times> 'v) list \<Rightarrow> ('k \<times> 'v) list" where
  "alist_modify k f [] = []"
| "alist_modify k f (p # ps) = (if fst p = k then (k, f (snd p)) # ps else p # alist_modify k f ps)"

text \<open>
  The four statements that both the day branch and the other branches run for one amount
  of time: create the group if missing, add to the group's time, create the task inside
  the group if missing, add to that task's time.
\<close>

definition accumulate ::
  "(string \<times> SummaryItem) list \<Rightarrow> string \<Rightarrow> string \<Rightarrow> string \<Rightarrow> string \<Rightarrow> int
     \<Rightarrow> (string \<times> SummaryItem) list" where
  "accumulate summaryItems groupingKey groupName taskId taskName amount =
     (let items1 = alist_ensure groupingKey
                     \<lparr> si_groupName = groupName, si_time = 0, si_tasks = [] \<rparr> summaryItems;
          items2 = alist_modify groupingKey (\<lambda>it. it \<lparr> si_time := si_time it + amount \<rparr>) items1;
          items3 = alist_modify groupingKey
                     (\<lambda>it. it \<lparr> si_tasks := alist_ensure taskId
                                 \<lparr> ta_id = taskId, ta_name = taskName, ta_time = 0 \<rparr> (si_tasks it) \<rparr>)
                     items2;
          items4 = alist_modify groupingKey
                     (\<lambda>it. it \<lparr> si_tasks := alist_modify taskId
                                 (\<lambda>t. t \<lparr> ta_time := ta_time t + amount \<rparr>) (si_tasks it) \<rparr>)
                     items3
      in items4)"

text \<open>The loop over the entries of one task when grouping by day.\<close>

fun dayEntries ::
  "calendar \<Rightarrow> (string \<times> SummaryItem) list \<Rightarrow> string \<Rightarrow> string \<Rightarrow> EntryTimes list
     \<Rightarrow> (string \<times> SummaryItem) list" where
  "dayEntries cal summaryItems taskId taskName [] = summaryItems"
| "dayEntries cal summaryItems taskId taskName (entry # rest) =
     (let entryDate = en_start entry;
          dayKey = showInt (getFullYear cal entryDate) @ ''-'' @
                   showInt (getMonth cal entryDate + 1) @ ''-'' @
                   showInt (getDate cal entryDate);
          entryDuration = (case en_duration entry of None \<Rightarrow> 0 | Some d \<Rightarrow> d);
          groupName = takeWhile (\<lambda>c. c \<noteq> CHR '','') (toLocaleString cal entryDate)
      in dayEntries cal
           (accumulate summaryItems dayKey groupName taskId taskName entryDuration)
           taskId taskName rest)"

text \<open>
  The loop over the tasks of one user. \<open>getTask\<close> is awaited for every task, whatever the
  grouping; a rejected call leaves the loops (the handler's \<open>catch\<close> takes it).
\<close>

fun summaryTasks ::
  "summary_env \<Rightarrow> calendar \<Rightarrow> string \<Rightarrow> DateRangeText \<Rightarrow> (string \<times> SummaryItem) list
     \<Rightarrow> (string \<times> TaskData) list \<Rightarrow> exn + (string \<times> SummaryItem) list" where
  "summaryTasks env cal groupBy dateRange summaryItems [] = Inr summaryItems"
| "summaryTasks env cal groupBy dateRange summaryItems (entry # rest) =
     (let taskId = fst entry; taskData = snd entry
      in case getTask env taskId of
           Inl e \<Rightarrow> Inl e
         | Inr task \<Rightarrow>
             if groupBy = ''day'' then
               (case getTimeEntries env taskId dateRange of
                  Inl e \<Rightarrow> Inl e
                | Inr entries \<Rightarrow>
                    summaryTasks env cal groupBy dateRange
                      (dayEntries cal summaryItems taskId (tk_name task) entries) rest)
             else
               (let (groupingKey, groupName) =
                      (if groupBy = ''task'' then (taskId, td_name taskData)
                       else if groupBy = ''list'' then (tk_list_id task, tk_list_name task)
                       else if groupBy = ''space'' then (tk_space_id task, tk_space_name task)
                       else (taskId, td_name taskData))
                in summaryTasks env cal groupBy dateRange
                     (accumulate summaryItems groupingKey groupName taskId (tk_name task)
                        (td_time taskData))
                     rest))"

fun summaryUsers ::
  "summary_env \<Rightarrow> calendar \<Rightarrow> string \<Rightarrow> DateRangeText \<Rightarrow> int \<times> (string \<times> SummaryItem) list
     \<Rightarrow> UserData list \<Rightarrow> exn + int \<times> (string \<times> SummaryItem) list" where
  "summaryUsers env cal groupBy dateRange acc [] = Inr acc"
| "summaryUsers env cal groupBy dateRange acc (userData # rest) =
     (let totalTime = fst acc + ud_time userData
      in case summaryTasks env cal groupBy dateRange (snd acc) (ud_tasks userData) of
           Inl e \<Rightarrow> Inl e
         | Inr summaryItems \<Rightarrow> summaryUsers env cal groupBy dateRange (totalTime, summaryItems) rest)"

record TaskShare =
  gt_id :: string
  gt_name :: string
  gt_time :: int
  gt_percentage :: jsnum

record GroupSummary =
  gs_groupKey :: string
  gs_groupName :: string
  gs_time :: int
  gs_percentage :: jsnum
  gs_tasks :: "TaskShare list"

definition toTaskShare :: "int \<Rightarrow> string \<times> TaskAcc \<Rightarrow> TaskShare" where
  "toTaskShare groupTime entry =
     \<lparr> gt_id = fst entry, gt_name = ta_name (snd entry), gt_time = ta_time (snd entry),
       gt_percentage = percentOf (ta_time (snd entry)) groupTime \<rparr>"

definition toGroupSummary :: "int \<Rightarrow> string \<times> SummaryItem \<Rightarrow> GroupSummary" where
  "toGroupSummary totalTime entry =
     (let key = fst entry; item = snd entry;
          tasksArray = map (toTaskShare (si_time item)) (si_tasks item)
      in \<lparr> gs_groupKey = key, gs_groupName = si_groupName item, gs_time = si_time item,
           gs_percentage = percentOf (si_time item) totalTime,
           gs_tasks = sort_key (\<lambda>t. - gt_time t) tasksArray \<rparr>)"

definition periodText :: "string \<Rightarrow> string" where
  "periodText period =
     (if period = ''today'' then ''Today''
      else if period = ''yesterday'' then ''Yesterday''
      else if period = ''this_week'' then ''This week''
      else if period = ''last_week'' then ''Last week''
      else if period = ''this_month'' then ''This month''
      else if period = ''last_month'' then ''Last month''
      else if period = ''custom'' then ''Custom period''
      else '''')"

record SummaryParams =
  p_period :: string
  p_start_date :: "string option"
  p_end_date :: "string option"
  p_groupBy :: "string option"

record SummaryPayload =
  sp_period :: string
  sp_groupedBy :: string
  sp_totalTime :: int
  sp_dateRange :: DateRangeText
  sp_summary :: "GroupSummary list"

text \<open>
  The handler returns a text content in every case: the JSON of the payload, or
  \<open>`Error getting time tracking summary: ${error.message}`\<close> from its \<open>catch\<close>. The
  formatted copies of the times and of the bounds are left out of the payload.
\<close>

datatype SummaryResponse = SummaryJson SummaryPayload | SummaryErrorText string

definition summaryPayload ::
  "summary_env \<Rightarrow> calendar \<Rightarrow> int \<Rightarrow> SummaryParams \<Rightarrow> exn + SummaryPayload" where
  "summaryPayload env cal now parameters =
     (let period = p_period parameters;
          groupBy = (case p_groupBy parameters of None \<Rightarrow> ''task'' | Some g \<Rightarrow> g)
      in case summary_dateRange cal now period (p_start_date parameters) (p_end_date parameters) of
           Inl e \<Rightarrow> Inl e
         | Inr dateRange \<Rightarrow>
             (case getTimeTrackingReport env dateRange of
                Inl e \<Rightarrow> Inl e
              | Inr report \<Rightarrow>
                  (case (case report of
                           None \<Rightarrow> Inr (0, [])
                         | Some data \<Rightarrow> summaryUsers env cal groupBy dateRange (0, []) data) of
                     Inl e \<Rightarrow> Inl e
                   | Inr (totalTime, summaryItems) \<Rightarrow>
                       Inr \<lparr> sp_period = periodText period, sp_groupedBy = groupBy,
                             sp_totalTime = totalTime, sp_dateRange = dateRange,
                             sp_summary = sort_key (\<lambda>g. - gs_time g)
                                            (map (toGroupSummary totalTime) summaryItems) \<rparr>)))"

definition handleGetTimeTrackingSummary ::
  "summary_env \<Rightarrow> calendar \<Rightarrow> int \<Rightarrow> SummaryParams \<Rightarrow> SummaryResponse" where
  "handleGetTimeTrackingSummary env cal now parameters =
     (case summaryPayload env cal now parameters of
        Inl e \<Rightarrow> SummaryErrorText (''Error getting time tracking summary: '' @ message e)
      | Inr payload \<Rightarrow> SummaryJson payload)"

text \<open>The loop invariant of the aggregation: a group's time is the sum of its tasks' times.\<close>

definition balanced :: "SummaryItem \<Rightarrow> bool" where
  "balanced it \<longleftrightarrow> sum_list (map (ta_time \<circ> snd) (si_tasks it)) = si_time it"

text \<open>The sum of all per-task times of a report.\<close>

definition perTaskTotal :: "UserData list \<Rightarrow> int" where
  "perTaskTotal data = sum_list (map (\<lambda>u. sum_list (map (td_time \<circ> snd) (ud_tasks u))) data)"

subsection \<open>Sample data\<close>

text \<open>
  Two users logged time on task \<open>t1\<close>; the second user's \<open>time\<close> (one hour) is larger
  than the sum of that user's task times (a quarter of an hour). \<open>idle_report\<close> lists one
  task with no time.
\<close>

definition example_report :: "UserData list" where
  "example_report =
     [\<lparr> ud_time = 5400000,
        ud_tasks = [(''t1'', \<lparr> td_id = ''t1'', td_name = ''A'', td_time = 3600000 \<rparr>),
                    (''t2'', \<lparr> td_id = ''t2'', td_name = ''B'', td_time = 1800000 \<rparr>)] \<rparr>,
      \<lparr> ud_time = 3600000,
        ud_tasks = [(''t1'', \<lparr> td_id = ''t1'', td_name = ''A'', td_time = 900000 \<rparr>)] \<rparr>]"

definition idle_report :: "UserData list" where
  "idle_report =
     [\<lparr> ud_time = 0,
        ud_tasks = [(''t1'', \<lparr> td_id = ''t1'', td_name = ''A'', td_time = 0 \<rparr>)] \<rparr>]"

definition example_env :: "UserData list \<Rightarrow> summary_env" where
  "example_env data =
     \<lparr> getTimeTrackingReport = (\<lambda>r. Inr (Some data)),
       getTask = (\<lambda>taskId. Inr \<lparr> tk_name = (if taskId = ''t1'' then ''A'' else ''B''),
                                tk_list_id = ''l1'', tk_list_name = ''Sprint'',
                                tk_space_id = ''s1'', tk_space_name = ''Dev'' \<rparr>),
       getTimeEntries = (\<lambda>taskId r. Inr []) \<rparr>"

definition example_params :: "string \<Rightarrow> SummaryParams" where
  "example_params g =
     \<lparr> p_period = ''custom'', p_start_date = Some ''1699833600000'',
       p_end_date = Some ''1700000000000'', p_groupBy = Some g \<rparr>"

section \<open>Task-name resolution\<close>

text \<open>
  The workspace hierarchy is a tree of nodes; \<open>hierarchy.root.children\<close> are the spaces.
  The two collaborators of the resolution are the hierarchy fetch and the task listing of
  a list; each either returns or throws.
\<close>

datatype node = Node (node_id: string) (node_name: string) (node_type: string) (children: "node list")

record TaskRef =
  task_id :: string
  task_name :: string

record resolver_env =
  getWorkspaceHierarchy :: "exn + node"
  getTasks :: "string \<Rightarrow> exn + TaskRef list"

text \<open>\<open>String.prototype.toLowerCase\<close> on ASCII letters.\<close>

definition toLowerChar :: "char \<Rightarrow> char" where
  "toLowerChar c =
     (case map_of (zip ''ABCDEFGHIJKLMNOPQRSTUVWXYZ'' ''abcdefghijklmnopqrstuvwxyz'') c of
        Some l \<Rightarrow> l
      | None \<Rightarrow> c)"

definition toLowerCase :: "string \<Rightarrow> string" where
  "toLowerCase s = map toLowerChar s"

definition nameMatches :: "string \<Rightarrow> TaskRef \<Rightarrow> bool" where
  "nameMatches taskName t \<longleftrightarrow> toLowerCase (task_name t) = toLowerCase taskName"

definition isList :: "node \<Rightarrow> bool" where
  "isList c \<longleftrightarrow> node_type c = ''list''"

definition isFolder :: "node \<Rightarrow> bool" where
  "isFolder c \<longleftrightarrow> node_type c = ''folder''"

text \<open>
  \<open>findTaskIDByName\<close> (the same text in the tools' utilities and in the handlers' module).
  A loop returns \<open>Inr (Some id)\<close> when its \<open>return task.id\<close> is reached, \<open>Inr None\<close> when
  it runs to its end, \<open>Inl e\<close> when a call throws. The whole body is inside
  \<open>try { ... } catch (error) { console.error(...); return undefined; }\<close>.
\<close>

fun searchLists :: "resolver_env \<Rightarrow> string \<Rightarrow> node list \<Rightarrow> exn + string option" where
  "searchLists env taskName [] = Inr None"
| "searchLists env taskName (listNode # rest) =
     (case getTasks env (node_id listNode) of
        Inl e \<Rightarrow> Inl e
      | Inr tasks \<Rightarrow>
          (case List.find (nameMatches taskName) tasks of
             Some task \<Rightarrow> Inr (Some (task_id task))
           | None \<Rightarrow> searchLists env taskName rest))"

fun searchFolders :: "resolver_env \<Rightarrow> string \<Rightarrow> node list \<Rightarrow> exn + string option" where
  "searchFolders env taskName [] = Inr None"
| "searchFolders env taskName (folderNode # rest) =
     (case searchLists env taskName (filter isList (children folderNode)) of
        Inl e \<Rightarrow> Inl e
      | Inr (Some found) \<Rightarrow> Inr (Some found)
      | Inr None \<Rightarrow> searchFolders env taskName rest)"

fun searchSpaces :: "resolver_env \<Rightarrow> string \<Rightarrow> node list \<Rightarrow> exn + string option" where
  "searchSpaces env taskName [] = Inr None"
| "searchSpaces env taskName (spaceNode # rest) =
     (case searchLists env taskName (filter isList (children spaceNode)) of
        Inl e \<Rightarrow> Inl e
      | Inr (Some found) \<Rightarrow> Inr (Some found)
      | Inr None \<Rightarrow>
          (case searchFolders env taskName (filter isFolder (children spaceNode)) of
             Inl e \<Rightarrow> Inl e
           | Inr (Some found) \<Rightarrow> Inr (Some found)
           | Inr None \<Rightarrow> searchSpaces env taskName rest))"

definition findTaskIDByName :: "resolver_env \<Rightarrow> string \<Rightarrow> string option" where
  "findTaskIDByName env taskName =
     (case getWorkspaceHierarchy env of
        Inl e \<Rightarrow> None
      | Inr root \<Rightarrow>
          (case searchSpaces env taskName (children root) of
             Inl e \<Rightarrow> None
           | Inr found \<Rightarrow> found))"

subsection \<open>Resolution as the specification words it\<close>

text \<open>
  The lists in traversal order: space after space, in each space its direct lists first,
  then the lists of its folders, folder after folder. The specified result is the first
  task, over the task lists of these lists in that order, whose name equals the query
  when both are put in lower case.
\<close>

definition traversalLists :: "node \<Rightarrow> node list" where
  "traversalLists root =
     concat (map (\<lambda>space. filter isList (children space) @
                           concat (map (\<lambda>folder. filter isList (children folder))
                                     (filter isFolder (children space))))
               (children root))"

definition spec_resolveTaskId :: "(string \<Rightarrow> TaskRef list) \<Rightarrow> node \<Rightarrow> string \<Rightarrow> string option" where
  "spec_resolveTaskId tasksOf root taskName =
     map_option task_id
       (List.find (\<lambda>t. toLowerCase (task_name t) = toLowerCase taskName)
          (concat (map (\<lambda>l. tasksOf (node_id l)) (traversalLists root))))"



section \<open>Timers\<close>

record TimeEntry =
  te_id :: string
  te_task_id :: string
  te_task_name :: string
  te_start :: int
  te_description :: string
  te_billable :: bool
  te_tags :: "string list"

text \<open>
  \<open>te_start\<close> is \<open>parseInt(entry.start)\<close>. What the transport hands to a service method is
  either a thrown value or a response, of which the method reads \<open>response.data\<close> and
  \<open>response.data.data\<close>: \<open>NoData\<close> is a \<open>response.data\<close> that is \<open>undefined\<close> or \<open>null\<close>,
  \<open>EmptyData\<close> one that is falsy otherwise (the empty string of an empty body), and
  \<open>Body d\<close> an object whose \<open>data\<close> field is the running entry or is falsy (\<open>None\<close>).
\<close>

datatype ResponseData = NoData | EmptyData | Body "TimeEntry option"

subsection \<open>\<open>getCurrentTimer\<close> of services/clickup/timetracking.ts\<close>

fun responseStatus :: "exn \<Rightarrow> int option" where
  "responseStatus (AxiosError m st) = st"
| "responseStatus e = None"

text \<open>
  \<open>handleApiError\<close> rethrows a \<open>ClickUpServiceError\<close> and wraps anything else with the
  message prefix (\<open>error?.message || 'Unknown error'\<close> for a value that is no transport
  error).
\<close>

fun handleApiError :: "exn \<Rightarrow> string \<Rightarrow> exn" where
  "handleApiError (ClickUpServiceError m) prefix = ClickUpServiceError m"
| "handleApiError (AxiosError m st) prefix = ClickUpServiceError (prefix @ '': '' @ m)"
| "handleApiError e prefix =
     ClickUpServiceError (prefix @ '': '' @ (if message e = '''' then ''Unknown error'' else message e))"

text \<open>
  \<open>return response.data.data\<close> inside \<open>try\<close>; the \<open>catch\<close> returns \<open>null\<close> when
  \<open>error.response.status === 404\<close> and calls \<open>handleApiError\<close> otherwise. Reading
  \<open>.data\<close> of an \<open>undefined\<close> \<open>response.data\<close> throws a \<open>TypeError\<close> inside the \<open>try\<close>.
  \<open>null\<close> and \<open>undefined\<close> are both \<open>None\<close>.
\<close>

definition getCurrentTimer :: "exn + ResponseData \<Rightarrow> exn + TimeEntry option" where
  "getCurrentTimer outcome =
     (case outcome of
        Inr (Body d) \<Rightarrow> Inr d
      | Inr EmptyData \<Rightarrow> Inr None
      | Inr NoData \<Rightarrow>
          Inl (handleApiError (TypeError ''Cannot read properties of undefined'')
                 ''Error getting current timer'')
      | Inl error \<Rightarrow>
          (if responseStatus error = Some 404 then Inr None
           else Inl (handleApiError error ''Error getting current timer'')))"

subsection \<open>\<open>TimeTrackingService.getCurrentTimer\<close> of the service used by the handlers\<close>

text \<open>
  \<open>if (!response.data) throw new ClickUpServiceError(...)\<close>,
  \<open>if (!response.data.data) return null\<close>; the \<open>catch\<close> rethrows a
  \<open>ClickUpServiceError\<close> and wraps anything else; it has no case for a status.
\<close>

definition TimeTrackingService_getCurrentTimer :: "exn + ResponseData \<Rightarrow> exn + TimeEntry option" where
  "TimeTrackingService_getCurrentTimer outcome =
     (case outcome of
        Inr (Body d) \<Rightarrow> Inr d
      | Inr EmptyData \<Rightarrow>
          Inl (ClickUpServiceError ''Invalid API response structure from current timer endpoint'')
      | Inr NoData \<Rightarrow>
          Inl (ClickUpServiceError ''Invalid API response structure from current timer endpoint'')
      | Inl error \<Rightarrow>
          (case error of
             ClickUpServiceError m \<Rightarrow> Inl error
           | _ \<Rightarrow> Inl (ClickUpServiceError (''Failed to get current timer: '' @ message error))))"

subsection \<open>Tools and resources built on the current timer\<close>

text \<open>
  Each takes the outcome of \<open>timeTrackingService.getCurrentTimer()\<close> and the value of
  \<open>Date.now()\<close>. \<open>handleGetCurrentTimer\<close> answers with the JSON of \<open>running: false\<close> and a
  message, with the JSON of the running entry, or with an error text.
\<close>

datatype CurrentTimerResponse =
    NoTimerRunning string
  | TimerRunning TimeEntry int
  | CurrentTimerErrorText string

definition handleGetCurrentTimer :: "exn + TimeEntry option \<Rightarrow> int \<Rightarrow> CurrentTimerResponse" where
  "handleGetCurrentTimer currentTimer now =
     (case currentTimer of
        Inl error \<Rightarrow> CurrentTimerErrorText (''Error getting current timer: '' @ message error)
      | Inr None \<Rightarrow> NoTimerRunning ''No timer is currently running''
      | Inr (Some t) \<Rightarrow> TimerRunning t (now - te_start t))"

text \<open>\<open>getCurrentTimerTool.handler\<close> of tools/timetracking.ts answers with a \<open>status\<close>.\<close>

datatype CurrentTimerStatus =
    StatusNoTimerRunning
  | StatusTimerRunning TimeEntry string
  | StatusError string

definition getCurrentTimerTool_handler :: "exn + TimeEntry option \<Rightarrow> int \<Rightarrow> CurrentTimerStatus" where
  "getCurrentTimerTool_handler currentTimer now =
     (case currentTimer of
        Inl error \<Rightarrow> StatusError (message error)
      | Inr None \<Rightarrow> StatusNoTimerRunning
      | Inr (Some t) \<Rightarrow> StatusTimerRunning t (formatDuration (now - te_start t)))"

text \<open>\<open>getCurrentTimerAsText\<close> of resources/timetracking.ts answers with markdown.\<close>

definition getCurrentTimerAsText :: "calendar \<Rightarrow> exn + TimeEntry option \<Rightarrow> int \<Rightarrow> string" where
  "getCurrentTimerAsText cal currentTimer now =
     (case currentTimer of
        Inl error \<Rightarrow> ''Error getting current timer: '' @ message error
      | Inr None \<Rightarrow> ''# Timer Status'' @ [CHR 0x0A, CHR 0x0A] @ ''No timer is currently running.''
      | Inr (Some t) \<Rightarrow>
          (let elapsed = now - te_start t;
               markdown0 = ''# Current Timer Status'' @ [CHR 0x0A, CHR 0x0A];
               markdown1 = markdown0 @ ''**Task:** '' @ te_task_name t @ [CHR 0x0A];
               markdown2 = markdown1 @ ''**Started:** '' @ toLocaleString cal (te_start t) @ [CHR 0x0A];
               markdown3 = markdown2 @ ''**Running For:** '' @ formatDuration elapsed @ [CHR 0x0A];
               markdown4 = (if te_description t \<noteq> ''''
                            then markdown3 @ ''**Description:** '' @ te_description t @ [CHR 0x0A]
                            else markdown3);
               markdown5 = (if te_billable t then markdown4 @ ''**Billable:** Yes'' @ [CHR 0x0A]
                            else markdown4);
               markdown6 = (if te_tags t \<noteq> []
                            then markdown5 @ ''**Tags:** '' @ joinWith '', '' (te_tags t) @ [CHR 0x0A]
                            else markdown5)
           in markdown6))"

text \<open>
  \<open>handleStopTimer\<close> checks the current timer first; without one it answers
  \<open>success: false\<close> with a message and does not call \<open>stopTimer\<close>.
\<close>

datatype StopTimerResponse =
    StopNotRunning string
  | TimerStopped TimeEntry
  | StopTimerErrorText string

definition handleStopTimer :: "exn + TimeEntry option \<Rightarrow> exn + TimeEntry \<Rightarrow> StopTimerResponse" where
  "handleStopTimer currentTimer stopTimer =
     (case currentTimer of
        Inl error \<Rightarrow> StopTimerErrorText (''Error stopping timer: '' @ message error)
      | Inr None \<Rightarrow> StopNotRunning ''No timer is currently running''
      | Inr (Some t) \<Rightarrow>
          (case stopTimer of
             Inl error \<Rightarrow> StopTimerErrorText (''Error stopping timer: '' @ message error)
           | Inr timeEntry \<Rightarrow> TimerStopped timeEntry))"

subsection \<open>\<open>handleStartTimer\<close>\<close>

record StartTimerParams =
  st_taskId :: "string option"
  st_taskName :: "string option"
  st_description :: "string option"
  st_billable :: "bool option"
  st_tags :: "string list option"

record StartTimerOptions =
  so_description :: string
  so_billable :: bool
  so_tags :: "string list"

record timer_env =
  currentTimer :: "exn + TimeEntry option"
  startTimer :: "string \<Rightarrow> StartTimerOptions \<Rightarrow> exn + TimeEntry"

record RunningTimer =
  rt_taskId :: string
  rt_taskName :: string
  rt_started :: int
  rt_description :: string

datatype StartTimerResponse =
    TimerNotStarted string RunningTimer
  | TimerStarted string TimeEntry
  | StartTimerErrorText string

definition quoted :: "string \<Rightarrow> string" where
  "quoted s = [CHR 0x22] @ s @ [CHR 0x22]"

definition taskNotFound :: "string \<Rightarrow> exn" where
  "taskNotFound taskName = Error (''Task with name '' @ quoted taskName @ '' not found'')"

definition alreadyRunningMessage :: "TimeEntry \<Rightarrow> string" where
  "alreadyRunningMessage t =
     ''There'' @ [CHR 0x27] @ ''s already a timer running for task '' @ quoted (te_task_name t) @
     ''. Please stop it first.''"

text \<open>
  The task id is resolved before the \<open>try\<close>: the two \<open>throw\<close>s of the resolution leave
  the handler. Inside the \<open>try\<close> the current timer is read first; with a timer running
  the handler returns the \<open>success: false\<close> answer that names it, and \<open>startTimer\<close> is
  not called. The \<open>started\<close> field is kept as the number (the code prints it with
  \<open>toLocaleString\<close>).
\<close>

definition handleStartTimer ::
  "resolver_env \<Rightarrow> timer_env \<Rightarrow> StartTimerParams \<Rightarrow> exn + StartTimerResponse" where
  "handleStartTimer renv tenv parameters =
     (let resolved =
            (if truthy (st_taskName parameters) \<and> \<not> truthy (st_taskId parameters)
             then (let found = findTaskIDByName renv (the (st_taskName parameters))
                   in if \<not> truthy found then Inl (taskNotFound (the (st_taskName parameters)))
                      else Inr found)
             else Inr (st_taskId parameters))
      in case resolved of
           Inl e \<Rightarrow> Inl e
         | Inr taskIdToUse \<Rightarrow>
             if \<not> truthy taskIdToUse then Inl (Error ''Either taskId or taskName must be provided'')
             else
               (case currentTimer tenv of
                  Inl error \<Rightarrow> Inr (StartTimerErrorText (''Error starting timer: '' @ message error))
                | Inr (Some t) \<Rightarrow>
                    Inr (TimerNotStarted (alreadyRunningMessage t)
                           \<lparr> rt_taskId = te_task_id t, rt_taskName = te_task_name t,
                             rt_started = te_start t, rt_description = te_description t \<rparr>)
                | Inr None \<Rightarrow>
                    (case startTimer tenv (the taskIdToUse)
                            \<lparr> so_description = (case st_description parameters of
                                                  None \<Rightarrow> '''' | Some d \<Rightarrow> d),
                              so_billable = (case st_billable parameters of
                                               None \<Rightarrow> False | Some b \<Rightarrow> b),
                              so_tags = (case st_tags parameters of
                                           None \<Rightarrow> [] | Some ts \<Rightarrow> ts) \<rparr> of
                       Inl error \<Rightarrow>
                         Inr (StartTimerErrorText (''Error starting timer: '' @ message error))
                     | Inr timeEntry \<Rightarrow>
                         Inr (TimerStarted
                                (''Timer started for task '' @ quoted (te_task_name timeEntry))
                                timeEntry))))"

subsection \<open>\<open>startTimerTool.handler\<close> (tools/timetracking.ts)\<close>

text \<open>
  The tool of tools/timetracking.ts also takes a \<open>listName\<close>. It passes the optional
  fields on as they are (\<open>StartTimerParams\<close> of services/clickup/timetracking.ts, here
  \<open>StartTimerRequest\<close>), and its \<open>startTimer\<close> returns \<open>response.data.data\<close>, which may be
  \<open>undefined\<close> (\<open>None\<close>). \<open>findIDByNameInHierarchy\<close> belongs to the workspace service and
  is a parameter: it gives the id of the list found. \<open>tool_currentTimer\<close> is what
  \<open>timeTrackingService.getCurrentTimer()\<close> would answer.
\<close>

record StartTimerToolParams =
  tp_taskId :: "string option"
  tp_taskName :: "string option"
  tp_listName :: "string option"
  tp_description :: "string option"
  tp_billable :: "bool option"
  tp_tags :: "string list option"

record StartTimerRequest =
  rq_task_id :: string
  rq_description :: "string option"
  rq_billable :: "bool option"
  rq_tags :: "string list option"

record tool_env =
  tool_currentTimer :: "exn + TimeEntry option"
  tool_startTimer :: "StartTimerRequest \<Rightarrow> exn + TimeEntry option"
  findIDByNameInHierarchy :: "node \<Rightarrow> string \<Rightarrow> string option"

text \<open>
  The answer is the JSON of \<open>status: "Timer started"\<close> with \<open>task_id\<close>, \<open>task_name\<close>,
  \<open>started_at\<close> (kept as the number; the code prints it with \<open>toISOString\<close>) and
  \<open>description\<close>, or the JSON of \<open>status: "Error"\<close> with a message.
\<close>

datatype StartTimerStatus =
    StatusTimerStarted string string int string
  | StatusStartError string

text \<open>
  The whole body is inside \<open>try\<close>, and the \<open>catch\<close> turns every thrown value into the
  \<open>Error\<close> status: the three \<open>throw\<close>s of the lookup, a rejected collaborator call, the
  \<open>TypeError\<close> of reading \<open>timer.task\<close> of an \<open>undefined\<close> timer, and the \<open>RangeError\<close> of
  \<open>toISOString\<close> for a start outside the range of \<open>Date\<close>. With a task id (given or
  found) the handler calls \<open>startTimer\<close>; it makes no call to \<open>getCurrentTimer\<close>.
\<close>

definition startTimerTool_handler ::
  "resolver_env \<Rightarrow> tool_env \<Rightarrow> StartTimerToolParams \<Rightarrow> StartTimerStatus" where
  "startTimerTool_handler renv tenv params =
     (let lookup =
            (if \<not> truthy (tp_taskId params) \<and> truthy (tp_taskName params) then
               (let taskName = the (tp_taskName params);
                    listId =
                      (if truthy (tp_listName params) then
                         (case getWorkspaceHierarchy renv of
                            Inl e \<Rightarrow> Inl e
                          | Inr hierarchy \<Rightarrow>
                              (case findIDByNameInHierarchy tenv hierarchy
                                      (the (tp_listName params)) of
                                 None \<Rightarrow>
                                   Inl (Error (''List '' @ quoted (the (tp_listName params)) @
                                               '' not found''))
                               | Some i \<Rightarrow> Inr i))
                       else Inr '''')
                in case listId of
                     Inl e \<Rightarrow> Inl e
                   | Inr l \<Rightarrow>
                       (case getTasks renv l of
                          Inl e \<Rightarrow> Inl e
                        | Inr tasks \<Rightarrow>
                            (case find (nameMatches taskName) tasks of
                               None \<Rightarrow>
                                 Inl (Error (''Task '' @ quoted taskName @ '' not found'' @
                                             (if truthy (tp_listName params)
                                              then '' in list '' @
                                                   quoted (the (tp_listName params))
                                              else '''')))
                             | Some foundTask \<Rightarrow> Inr (Some (task_id foundTask)))))
             else Inr (tp_taskId params))
      in case lookup of
           Inl e \<Rightarrow> StatusStartError (message e)
         | Inr targetTaskId \<Rightarrow>
             if \<not> truthy targetTaskId
             then StatusStartError ''Either taskId or taskName must be provided''
             else
               (case tool_startTimer tenv
                       \<lparr> rq_task_id = the targetTaskId,
                         rq_description = tp_description params,
                         rq_billable = tp_billable params,
                         rq_tags = tp_tags params \<rparr> of
                  Inl e \<Rightarrow> StatusStartError (message e)
                | Inr None \<Rightarrow>
                    StatusStartError
                      (''Cannot read properties of undefined (reading '' @ [CHR 0x27] @
                       ''task'' @ [CHR 0x27] @ '')'')
                | Inr (Some timer) \<Rightarrow>
                    if \<bar>te_start timer\<bar> \<le> 8640000000000000
                    then StatusTimerStarted (the targetTaskId) (te_task_name timer)
                           (te_start timer)
                           (case tp_description params of None \<Rightarrow> '''' | Some d \<Rightarrow> d)
                    else StatusStartError ''Invalid time value''))"

subsection \<open>Sample workspace\<close>

text \<open>
  One space with a direct list \<open>L1\<close> and a folder holding the list \<open>L2\<close>; both lists have
  a task named \<open>Fix Bug\<close>.
\<close>

definition example_root :: node where
  "example_root =
     Node ''root'' ''Workspace'' ''workspace''
       [Node ''s1'' ''Dev'' ''space''
          [Node ''f1'' ''Backlog'' ''folder'' [Node ''L2'' ''Later'' ''list'' []],
           Node ''L1'' ''Sprint'' ''list'' []]]"

definition example_tasksOf :: "string \<Rightarrow> TaskRef list" where
  "example_tasksOf listId =
     (if listId = ''L1'' then [\<lparr> task_id = ''a1'', task_name = ''Write docs'' \<rparr>,
                                \<lparr> task_id = ''a2'', task_name = ''Fix Bug'' \<rparr>]
      else if listId = ''L2'' then [\<lparr> task_id = ''b1'', task_name = ''Fix Bug'' \<rparr>]
      else [])"

definition example_resolver :: resolver_env where
  "example_resolver =
     \<lparr> getWorkspaceHierarchy = Inr example_root,
       getTasks = (\<lambda>listId. Inr (example_tasksOf listId)) \<rparr>"


definition example_timer :: TimeEntry where
  "example_timer =
     \<lparr> te_id = ''e1'', te_task_id = ''a1'', te_task_name = ''Write docs'',
       te_start = 1699999000000, te_description = ''drafting'', te_billable = False,
       te_tags = [] \<rparr>"

definition busy_env :: timer_env where
  "busy_env =
     \<lparr> currentTimer = Inr (Some example_timer),
       startTimer = (\<lambda>taskId options. Inl (Error ''startTimer must not be called'')) \<rparr>"

text \<open>
  The same situation for the tool of tools/timetracking.ts: the timer of \<open>example_timer\<close>
  is running, and the service answers a start request with the new entry.
\<close>

definition busy_tool_env :: tool_env where
  "busy_tool_env =
     \<lparr> tool_currentTimer = Inr (Some example_timer),
       tool_startTimer =
         (\<lambda>request. Inr (Some \<lparr> te_id = ''e2'', te_task_id = rq_task_id request,
                                 te_task_name = ''Fix Bug'', te_start = 1700000000000,
                                 te_description = '''', te_billable = False, te_tags = [] \<rparr>)),
       findIDByNameInHierarchy = (\<lambda>hierarchy listName. None) \<rparr>"

section \<open>Properties of the duration formatter\<close>

lemma dropWhile_keeps: "c \<in> set s \<Longrightarrow> \<not> P c \<Longrightarrow> c \<in> set (dropWhile P s)"
  by (induction s) auto

lemma dropWhile_hd: "s \<noteq> [] \<Longrightarrow> \<not> P (hd s) \<Longrightarrow> dropWhile P s = s"
  by (cases s) auto

lemma trim_nonempty:
  assumes "c \<in> set s" "\<not> isWhiteSpace c"
  shows "trim s \<noteq> []"
proof -
  from assms have "c \<in> set (rev (dropWhile isWhiteSpace s))"
    by (simp add: dropWhile_keeps)
  then have "c \<in> set (dropWhile isWhiteSpace (rev (dropWhile isWhiteSpace s)))"
    using assms(2) by (simp add: dropWhile_keeps)
  then show ?thesis
    unfolding trim_def
    by (cases "dropWhile isWhiteSpace (rev (dropWhile isWhiteSpace s))") simp_all
qed

lemma trim_id:
  assumes "s \<noteq> []" "\<not> isWhiteSpace (hd s)" "\<not> isWhiteSpace (last s)"
  shows "trim s = s"
proof -
  have lead: "dropWhile isWhiteSpace s = s"
    using assms by (simp add: dropWhile_hd)
  have tail: "dropWhile isWhiteSpace (rev s) = rev s"
    using assms by (simp add: dropWhile_hd hd_rev)
  show ?thesis by (simp add: trim_def lead tail)
qed

lemma showNat_nonempty: "showNat n \<noteq> []"
  by (subst showNat.simps) simp

lemma showNat_digits: "set (showNat n) \<subseteq> set ''0123456789''"
proof (induction n rule: showNat.induct)
  case (1 n)
  have d: "\<And>k. k < 10 \<Longrightarrow> ''0123456789'' ! k \<in> set ''0123456789''"
    by (rule nth_mem) simp
  show ?case
  proof (cases "n < 10")
    case True
    then show ?thesis using d[of n] by (subst showNat.simps) simp
  next
    case False
    have "n mod 10 < 10" by simp
    with False 1 d[of "n mod 10"] show ?thesis
      by (subst showNat.simps) simp
  qed
qed

lemma digit_not_space: "c \<in> set ''0123456789'' \<Longrightarrow> \<not> isWhiteSpace c"
  by (auto simp: isWhiteSpace_def)

lemma formatDuration_nonempty: "formatDuration ms \<noteq> []"
proof (cases "ms = 0")
  case True
  then show ?thesis by (simp add: formatDuration_def)
next
  case False
  define r where "r = (let seconds = ms div 1000;
            minutes = seconds div 60;
            hours = minutes div 60;
            days = hours div 24;
            remainingHours = js_rem hours 24;
            remainingMinutes = js_rem minutes 60;
            result0 = '''';
            result1 = (if days > 0 then result0 @ showInt days @ ''d '' else result0);
            result2 = (if remainingHours > 0 \<or> days > 0
                       then result1 @ showInt remainingHours @ ''h '' else result1);
            result3 = (if remainingMinutes > 0 \<or> result2 = ''''
                       then result2 @ showInt remainingMinutes @ ''m'' else result2)
        in result3)"
  have f: "formatDuration ms = trim r"
    using False by (simp add: formatDuration_def r_def Let_def)
  have "CHR ''m'' \<in> set r \<or> CHR ''h'' \<in> set r"
    unfolding r_def Let_def by auto
  then show ?thesis
  proof
    assume "CHR ''m'' \<in> set r"
    then show ?thesis unfolding f by (rule trim_nonempty) (simp add: isWhiteSpace_def)
  next
    assume "CHR ''h'' \<in> set r"
    then show ?thesis unfolding f by (rule trim_nonempty) (simp add: isWhiteSpace_def)
  qed
qed

lemma trim_trailing_space:
  assumes "s \<noteq> []" "\<not> isWhiteSpace (hd s)" "\<not> isWhiteSpace (last s)"
  shows "trim (s @ '' '') = s"
proof -
  have lead: "dropWhile isWhiteSpace (s @ '' '') = s @ '' ''"
    using assms by (simp add: dropWhile_hd)
  have sp: "isWhiteSpace (CHR '' '')" by (simp add: isWhiteSpace_def)
  have tail: "dropWhile isWhiteSpace (rev s) = rev s"
    using assms by (simp add: dropWhile_hd hd_rev)
  show ?thesis by (simp add: trim_def lead sp tail)
qed

lemma showInt_nonneg:
  assumes "0 \<le> i"
  shows "showInt i \<noteq> []" "\<not> isWhiteSpace (hd (showInt i))"
proof -
  have s: "showInt i = showNat (nat i)" using assms by (simp add: showInt_def)
  show ne: "showInt i \<noteq> []" by (simp add: s showNat_nonempty)
  then have "hd (showInt i) \<in> set (showNat (nat i))" by (simp add: s)
  then show "\<not> isWhiteSpace (hd (showInt i))"
    using showNat_digits digit_not_space by blast
qed

lemma js_rem_nonneg: "0 \<le> a \<Longrightarrow> 0 < b \<Longrightarrow> js_rem a b = a mod b"
  by (simp add: js_rem_def sgn_if)

lemma formatDuration_units:
  assumes "0 \<le> ms"
  shows "formatDuration ms = joinWith '' '' (renderedUnits ms)"
proof (cases "ms = 0")
  case True
  then show ?thesis
    by (simp add: formatDuration_def renderedUnits_def showInt_def showNat.simps)
next
  case False
  define d where "d = ms div 86400000"
  define h where "h = ms div 3600000 mod 24"
  define m where "m = ms div 60000 mod 60"
  have minutes: "ms div 1000 div 60 = ms div 60000"
    by (simp add: div_mult2_eq[symmetric])
  have hours: "ms div 60000 div 60 = ms div 3600000"
    by (simp add: div_mult2_eq[symmetric])
  have days: "ms div 3600000 div 24 = d"
    by (simp add: d_def div_mult2_eq[symmetric])
  have nn: "0 \<le> ms div 60000" "0 \<le> ms div 3600000" "0 \<le> d"
    using assms by (simp_all add: d_def pos_imp_zdiv_nonneg_iff)
  have rh: "js_rem (ms div 3600000) 24 = h"
    using nn by (simp add: js_rem_nonneg h_def)
  have rm: "js_rem (ms div 60000) 60 = m"
    using nn by (simp add: js_rem_nonneg m_def)
  have hm_nn: "0 \<le> h" "0 \<le> m"
    by (simp_all add: h_def m_def)
  let ?D = "showInt d" and ?H = "showInt h" and ?M = "showInt m"
  have body: "formatDuration ms =
      trim (let result1 = (if d > 0 then ?D @ ''d '' else '''');
                result2 = (if h > 0 \<or> d > 0 then result1 @ ?H @ ''h '' else result1)
            in if m > 0 \<or> result2 = '''' then result2 @ ?M @ ''m'' else result2)"
    using False by (simp add: formatDuration_def Let_def minutes hours days rh rm)
  have units: "renderedUnits ms =
      (if 0 < d then [?D @ ''d'', ?H @ ''h''] else if 0 < h then [?H @ ''h''] else []) @
      (if 0 < m \<or> (d = 0 \<and> h = 0) then [?M @ ''m''] else [])"
    unfolding renderedUnits_def Let_def d_def h_def m_def by (rule refl)
  note dig = showInt_nonneg[OF nn(3)] showInt_nonneg[OF hm_nn(1)] showInt_nonneg[OF hm_nn(2)]
  have nsp: "\<not> isWhiteSpace (CHR ''m'')" "\<not> isWhiteSpace (CHR ''h'')"
    by (simp_all add: isWhiteSpace_def)
  consider (dm) "0 < d" "0 < m" | (d0) "0 < d" "m = 0"
    | (hm) "d = 0" "0 < h" "0 < m" | (h0) "d = 0" "0 < h" "m = 0"
    | (mm) "d = 0" "h = 0"
    using nn(3) hm_nn by linarith
  then show ?thesis
  proof cases
    case dm
    have "trim (?D @ ''d '' @ ?H @ ''h '' @ ?M @ ''m'') = ?D @ ''d '' @ ?H @ ''h '' @ ?M @ ''m''"
      by (rule trim_id) (use dig nsp in simp_all)
    with dm show ?thesis
      by (simp add: body units)
  next
    case d0
    have "trim ((?D @ ''d '' @ ?H @ ''h'') @ '' '') = ?D @ ''d '' @ ?H @ ''h''"
      by (rule trim_trailing_space) (use dig nsp in simp_all)
    with d0 show ?thesis
      by (simp add: body units)
  next
    case hm
    have "trim (?H @ ''h '' @ ?M @ ''m'') = ?H @ ''h '' @ ?M @ ''m''"
      by (rule trim_id) (use dig nsp in simp_all)
    with hm show ?thesis
      by (simp add: body units)
  next
    case h0
    have "trim ((?H @ ''h'') @ '' '') = ?H @ ''h''"
      by (rule trim_trailing_space) (use dig nsp in simp_all)
    with h0 show ?thesis
      by (simp add: body units)
  next
    case mm
    have "trim (?M @ ''m'') = ?M @ ''m''"
      by (rule trim_id) (use dig nsp in simp_all)
    with mm show ?thesis
      by (simp add: body units)
  qed
qed

text \<open>
  Claim C5 as the code has it. \<open>formatDuration(0)\<close> is \<open>"0m"\<close>, \<open>formatDuration(90000)\<close> is
  \<open>"1m"\<close>, \<open>formatDuration(3600000)\<close> is \<open>"1h"\<close> (a zero minute part is not rendered once
  an hour part has been rendered), \<open>formatDuration(90000000)\<close> is \<open>"1d 1h"\<close> and so has a
  day component, and the result is never the empty string. For every non-negative
  duration the result is, separated by single spaces: days and hours when there is at
  least one day, else hours when there is at least one hour; then minutes when they are
  not zero or when every higher unit is zero.
\<close>

theorem formatDuration_renders:
  "formatDuration 0 = ''0m'' \<and>
   formatDuration 90000 = ''1m'' \<and>
   formatDuration 3600000 = ''1h'' \<and>
   formatDuration 90000000 = ''1d 1h'' \<and>
   (\<forall>ms. formatDuration ms \<noteq> '''') \<and>
   (\<forall>ms. 0 \<le> ms \<longrightarrow> formatDuration ms = joinWith '' '' (renderedUnits ms))"
proof -
  have "formatDuration 0 = ''0m''" by (simp add: formatDuration_def)
  moreover have "formatDuration 90000 = ''1m''" by code_simp
  moreover have "formatDuration 3600000 = ''1h''" by code_simp
  moreover have "formatDuration 90000000 = ''1d 1h''" by code_simp
  ultimately show ?thesis
    using formatDuration_nonempty formatDuration_units by blast
qed

theorem formatDuration_renders_witness:
  "(0::int) \<le> 93780000 \<and> renderedUnits 93780000 = [''1d'', ''2h'', ''3m''] \<and>
   formatDuration 93780000 = ''1d 2h 3m'' \<and>
   (0::int) \<le> 1800000 \<and> renderedUnits 1800000 = [''30m''] \<and>
   formatDuration 1800000 = ''30m''"
proof -
  have all: "\<forall>ms. 0 \<le> ms \<longrightarrow> formatDuration ms = joinWith '' '' (renderedUnits ms)"
    using formatDuration_renders by blast
  have u1: "renderedUnits 93780000 = [''1d'', ''2h'', ''3m'']"
    by (simp add: renderedUnits_def showInt_def showNat.simps)
  have u2: "renderedUnits 1800000 = [''30m'']"
    by (simp add: renderedUnits_def showInt_def showNat.simps)
  from all[rule_format, of 93780000] all[rule_format, of 1800000] show ?thesis
    by (simp add: u1 u2)
qed

text \<open>
  Claim C5 as the specification words it expects \<open>"1h 0m"\<close> for one hour; the code
  returns \<open>"1h"\<close>.
\<close>

theorem formatDuration_one_hour_counterexample:
  "formatDuration 3600000 \<noteq> ''1h 0m''"
  by code_simp

section \<open>Properties of the percentage computation\<close>

lemma bitLength_0: "bitLength 0 = 0"
  by (simp add: bitLength.simps)

lemma bitLength_double: "0 < n \<Longrightarrow> bitLength (2 * n) = Suc (bitLength n)"
  by (subst bitLength.simps) simp

lemma bitLength_double_plus: "bitLength (2 * n + 1) = Suc (bitLength n)"
  by (subst bitLength.simps) simp

lemma bitLength_numeral:
  "bitLength (numeral Num.One) = 1"
  "bitLength (numeral (Num.Bit0 k)) = Suc (bitLength (numeral k))"
  "bitLength (numeral (Num.Bit1 k)) = Suc (bitLength (numeral k))"
proof -
  show "bitLength (numeral Num.One) = 1"
    using bitLength_double_plus[of 0] by (simp add: bitLength_0)
  have "numeral (Num.Bit0 k) = 2 * (numeral k :: nat)"
    by (simp add: numeral_Bit0 mult_2)
  then show "bitLength (numeral (Num.Bit0 k)) = Suc (bitLength (numeral k))"
    using bitLength_double[of "numeral k"] by simp
  have "numeral (Num.Bit1 k) = 2 * (numeral k :: nat) + 1"
    by (simp add: numeral_Bit1 mult_2)
  then show "bitLength (numeral (Num.Bit1 k)) = Suc (bitLength (numeral k))"
    using bitLength_double_plus[of "numeral k"] by simp
qed

lemmas percentOf_eval = percentOf_def divide64_def nearest64_def leadingExponent_def
  roundHalfEven_def times64_def Math_round_def Let_def bitLength_numeral bitLength_0

lemma percentOf_zero_whole:
  "percentOf x 0 = (if x = 0 then NaN else if 0 < x then PosInfinity else NegInfinity)"
  by (simp add: percentOf_def divide64_def times64_def Math_round_def)

lemma JSON_stringify_zero_whole: "JSON_stringify_number (percentOf x 0) = JsonNull"
  by (simp add: percentOf_zero_whole JSON_stringify_number_def)

text \<open>
  The doubles between the three roundings matter: \<open>29 / 200\<close> is the double just below
  0.145, its product with 100 is 14.499999999999998, and the percentage is 14, where the
  exact quotient 14.5 would round to 15.
\<close>

lemma divide64_29_200: "divide64 29 200 = Float 5224175567749775 (- 55)"
  by (simp add: percentOf_eval)

lemma times64_29_200: "times64 (Float 5224175567749775 (- 55)) 100 = Float 8162774324609023 (- 49)"
  by (simp add: percentOf_eval)

lemma percentOf_29_200: "percentOf 29 200 = Finite 14"
  by (simp add: percentOf_def divide64_29_200 times64_29_200 Math_round_def)

lemma percentOf_57_200: "percentOf 57 200 = Finite 28"
  by (simp add: percentOf_eval)

lemma percentOf_1_2: "percentOf 1 2 = Finite 50"
  by (simp add: percentOf_eval)

text \<open>The percentages of the sample report.\<close>

lemma percentOf_samples:
  "percentOf 4500000 9000000 = Finite 50"
  "percentOf 1800000 9000000 = Finite 20"
  "percentOf 6300000 9000000 = Finite 70"
  "percentOf 4500000 6300000 = Finite 71"
  "percentOf 1800000 6300000 = Finite 29"
  "percentOf 4500000 4500000 = Finite 100"
  "percentOf 1800000 1800000 = Finite 100"
  "percentOf 0 0 = NaN"
  by (simp_all add: percentOf_eval)

section \<open>Properties of the date ranges\<close>

lemmas civil_defs = dfc_year_def dfc_doy_def days_from_civil_def civil_era_def civil_doe_def
  civil_yoe_def civil_doy_def civil_mp_def civil_day_def civil_month_def civil_year_def

lemma utc_sel:
  "getFullYear utc_calendar t = civil_year (t div 86400000)"
  "getMonth utc_calendar t = civil_month (t div 86400000) - 1"
  "getDate utc_calendar t = civil_day (t div 86400000)"
  "getDay utc_calendar t = (t div 86400000 + 4) mod 7"
  "timeWithinDay utc_calendar t = t mod 86400000"
  "makeDate utc_calendar y m d tw =
     (days_from_civil (y + m div 12) (m mod 12 + 1) 1 + d - 1) * 86400000 + tw"
  by (simp_all add: utc_calendar_def)

text \<open>
  In tools/timetracking.ts, whatever the time zone and the instant, yesterday's range ends
  one millisecond before today's range starts.
\<close>

lemma getDateRangeForPeriod_yesterday_today:
  "\<exists>y t. getDateRangeForPeriod cal now ''yesterday'' = Inr y \<and>
         getDateRangeForPeriod cal now ''today'' = Inr t \<and>
         end_date y = start_date t - 1"
  by (simp add: getDateRangeForPeriod_def Let_def)

text \<open>
  In the summary handler's function, whatever the time zone and the instant, yesterday's
  range ends at the very instant at which today's range starts.
\<close>

lemma summary_getDateRangeForPeriod_yesterday_today:
  "end_text (summary_getDateRangeForPeriod cal now ''yesterday'') =
   start_text (summary_getDateRangeForPeriod cal now ''today'')"
  by (simp add: summary_getDateRangeForPeriod_def Let_def)

lemma getDateRangeForPeriod_invalid:
  assumes "period \<notin> {''today'', ''yesterday'', ''this_week'', ''last_week'', ''this_month'',
                      ''last_month''}"
  shows "getDateRangeForPeriod cal now period = Inl (Error (''Invalid period: '' @ period))"
  using assms by (simp add: getDateRangeForPeriod_def Let_def)

lemma summary_getDateRangeForPeriod_default:
  assumes "period \<notin> {''today'', ''yesterday'', ''this_week'', ''last_week'', ''this_month'',
                      ''last_month''}"
  shows "summary_getDateRangeForPeriod cal now period =
         summary_getDateRangeForPeriod cal now ''today''"
  using assms by (simp add: summary_getDateRangeForPeriod_def Let_def)

lemma summary_dateRange_unknown:
  assumes "period \<notin> {''today'', ''yesterday'', ''this_week'', ''last_week'', ''this_month'',
                      ''last_month'', ''custom''}"
  shows "summary_dateRange cal now period s e = Inr (summary_getDateRangeForPeriod cal now ''today'')"
  using assms summary_getDateRangeForPeriod_default[of period cal now]
  by (simp add: summary_dateRange_def)

lemma summary_dateRange_custom_missing:
  assumes "\<not> truthy s \<or> \<not> truthy e"
  shows "summary_dateRange cal now ''custom'' s e =
         Inl (Error ''Custom period requires both start_date and end_date'')"
  using assms by (auto simp: summary_dateRange_def)

lemma utc_today_1700000000000:
  "makeDate utc_calendar (getFullYear utc_calendar 1700000000000)
     (getMonth utc_calendar 1700000000000) (getDate utc_calendar 1700000000000) 0 = 1699920000000"
  by (simp add: utc_sel civil_defs)

lemma utc_yesterday_1700000000000:
  "setDate utc_calendar 1699920000000 (getDate utc_calendar 1699920000000 - 1) = 1699833600000"
  by (simp add: setDate_def utc_sel civil_defs)

lemma showInt_1699920000000: "showInt 1699920000000 = ''1699920000000''"
  by (simp add: showInt_def showNat.simps)

lemma showInt_1699833600000: "showInt 1699833600000 = ''1699833600000''"
  by (simp add: showInt_def showNat.simps)

lemma showInt_1700000000000: "showInt 1700000000000 = ''1700000000000''"
  by (simp add: showInt_def showNat.simps)

lemma summary_today_1700000000000:
  "summary_getDateRangeForPeriod utc_calendar 1700000000000 ''today'' =
     \<lparr> start_text = ''1699920000000'', end_text = ''1700000000000'' \<rparr>"
  unfolding summary_getDateRangeForPeriod_def Let_def utc_today_1700000000000
  by (simp add: showInt_1699920000000 showInt_1700000000000)

lemma summary_yesterday_1700000000000:
  "summary_getDateRangeForPeriod utc_calendar 1700000000000 ''yesterday'' =
     \<lparr> start_text = ''1699833600000'', end_text = ''1699920000000'' \<rparr>"
  unfolding summary_getDateRangeForPeriod_def Let_def utc_today_1700000000000
    utc_yesterday_1700000000000
  by (simp add: showInt_1699920000000 showInt_1699833600000)

lemma tools_yesterday_1700000000000:
  "getDateRangeForPeriod utc_calendar 1700000000000 ''yesterday'' =
     Inr \<lparr> start_date = 1699833600000, end_date = 1699919999999 \<rparr>"
  unfolding getDateRangeForPeriod_def Let_def utc_today_1700000000000
    utc_yesterday_1700000000000
  by simp

text \<open>
  Claim C3 at the instant 1700000000000 (2023-11-14T22:13:20Z) in UTC. The summary
  handler's \<open>getDateRangeForPeriod\<close> returns for \<open>yesterday\<close> the end 1699920000000, which
  is the start it returns for \<open>today\<close> and not that start minus one millisecond; the
  function of tools/timetracking.ts returns the end 1699919999999 there.
\<close>

theorem summary_yesterday_ends_at_today_start:
  "summary_getDateRangeForPeriod utc_calendar 1700000000000 ''yesterday'' =
     \<lparr> start_text = ''1699833600000'', end_text = ''1699920000000'' \<rparr> \<and>
   summary_getDateRangeForPeriod utc_calendar 1700000000000 ''today'' =
     \<lparr> start_text = ''1699920000000'', end_text = ''1700000000000'' \<rparr> \<and>
   getDateRangeForPeriod utc_calendar 1700000000000 ''yesterday'' =
     Inr \<lparr> start_date = 1699833600000, end_date = 1699919999999 \<rparr>"
  using summary_yesterday_1700000000000 summary_today_1700000000000
    tools_yesterday_1700000000000
  by simp

section \<open>Properties of the aggregation\<close>

subsection \<open>Association lists\<close>

lemma alist_modify_twice:
  "alist_modify k f (alist_modify k g al) = alist_modify k (f \<circ> g) al"
  by (induction al) auto

lemma alist_modify_pred:
  assumes "\<forall>p\<in>set al. P (snd p)" "\<And>v. P v \<Longrightarrow> P (f v)"
  shows "\<forall>p\<in>set (alist_modify k f al). P (snd p)"
  using assms by (induction al) auto

lemma alist_ensure_pred:
  assumes "\<forall>p\<in>set al. P (snd p)" "P v"
  shows "\<forall>p\<in>set (alist_ensure k v al). P (snd p)"
  using assms by (auto simp: alist_ensure_def)

lemma alist_ensure_key: "k \<in> fst ` set (alist_ensure k v al)"
proof (cases "map_of al k")
  case None
  then show ?thesis by (simp add: alist_ensure_def)
next
  case (Some a)
  then have "(k, a) \<in> set al" by (rule map_of_SomeD)
  then have "k \<in> fst ` set al" by force
  with Some show ?thesis by (simp add: alist_ensure_def)
qed

lemma sum_alist_ensure:
  "sum_list (map (ta_time \<circ> snd) (alist_ensure k \<lparr> ta_id = i, ta_name = n, ta_time = 0 \<rparr> al))
     = sum_list (map (ta_time \<circ> snd) al)"
  by (simp add: alist_ensure_def)

lemma sum_alist_modify:
  "k \<in> fst ` set al \<Longrightarrow>
   sum_list (map (ta_time \<circ> snd) (alist_modify k (\<lambda>t. t \<lparr> ta_time := ta_time t + a \<rparr>) al))
     = sum_list (map (ta_time \<circ> snd) al) + a"
  by (induction al) auto

lemma sum_list_insort_key:
  "sum_list (map f (insort_key g x xs)) = (f x :: int) + sum_list (map f xs)"
  by (induction xs) simp_all

lemma sum_list_sort_key: "sum_list (map f (sort_key g xs)) = (sum_list (map f xs) :: int)"
  by (induction xs) (simp_all add: sum_list_insort_key)

subsection \<open>The loops keep every group balanced\<close>

lemma accumulate_balanced:
  assumes "\<forall>p\<in>set items. balanced (snd p)"
  shows "\<forall>p\<in>set (accumulate items key gname tid tname a). balanced (snd p)"
proof -
  let ?h = "(\<lambda>it. it \<lparr> si_tasks := alist_modify tid (\<lambda>t. t \<lparr> ta_time := ta_time t + a \<rparr>) (si_tasks it) \<rparr>)
            \<circ> ((\<lambda>it. it \<lparr> si_tasks := alist_ensure tid \<lparr> ta_id = tid, ta_name = tname, ta_time = 0 \<rparr> (si_tasks it) \<rparr>)
            \<circ> (\<lambda>it. it \<lparr> si_time := si_time it + a \<rparr>))"
  have acc: "accumulate items key gname tid tname a
      = alist_modify key ?h (alist_ensure key \<lparr> si_groupName = gname, si_time = 0, si_tasks = [] \<rparr> items)"
    by (simp add: accumulate_def Let_def alist_modify_twice comp_assoc)
  have h: "balanced (?h it)" if "balanced it" for it
    using that
    by (simp add: balanced_def sum_alist_modify[OF alist_ensure_key] sum_alist_ensure)
  have "\<forall>p\<in>set (alist_ensure key \<lparr> si_groupName = gname, si_time = 0, si_tasks = [] \<rparr> items). balanced (snd p)"
    by (rule alist_ensure_pred[OF assms]) (simp add: balanced_def)
  then show ?thesis
    unfolding acc by (rule alist_modify_pred) (rule h)
qed

lemma dayEntries_balanced:
  "\<forall>p\<in>set items. balanced (snd p) \<Longrightarrow>
   \<forall>p\<in>set (dayEntries cal items tid tname entries). balanced (snd p)"
proof (induction entries arbitrary: items)
  case Nil
  then show ?case by simp
next
  case (Cons e es)
  show ?case
    unfolding dayEntries.simps Let_def
    by (rule Cons.IH) (rule accumulate_balanced[OF Cons.prems])
qed

lemma summaryTasks_balanced:
  "summaryTasks env cal groupBy dateRange items tasks = Inr items' \<Longrightarrow>
   \<forall>p\<in>set items. balanced (snd p) \<Longrightarrow> \<forall>p\<in>set items'. balanced (snd p)"
proof (induction tasks arbitrary: items)
  case Nil
  then show ?case by simp
next
  case (Cons t ts)
  from Cons.prems(1) obtain task where task: "getTask env (fst t) = Inr task"
    by (auto simp: Let_def split: sum.splits)
  show ?case
  proof (cases "groupBy = ''day''")
    case True
    with Cons.prems(1) task obtain entries where
      entries: "getTimeEntries env (fst t) dateRange = Inr entries"
      and rest: "summaryTasks env cal groupBy dateRange
                   (dayEntries cal items (fst t) (tk_name task) entries) ts = Inr items'"
      by (auto simp: Let_def split: sum.splits)
    from rest show ?thesis
      by (rule Cons.IH) (rule dayEntries_balanced[OF Cons.prems(2)])
  next
    case False
    with Cons.prems(1) task obtain gk gn where
      rest: "summaryTasks env cal groupBy dateRange
               (accumulate items gk gn (fst t) (tk_name task) (td_time (snd t))) ts = Inr items'"
      by (auto simp: Let_def split: sum.splits if_splits)
    from rest show ?thesis
      by (rule Cons.IH) (rule accumulate_balanced[OF Cons.prems(2)])
  qed
qed

lemma summaryUsers_balanced:
  "summaryUsers env cal groupBy dateRange acc users = Inr acc' \<Longrightarrow>
   \<forall>p\<in>set (snd acc). balanced (snd p) \<Longrightarrow> \<forall>p\<in>set (snd acc'). balanced (snd p)"
proof (induction users arbitrary: acc)
  case Nil
  then show ?case by simp
next
  case (Cons u us)
  from Cons.prems(1) obtain items where
    items: "summaryTasks env cal groupBy dateRange (snd acc) (ud_tasks u) = Inr items"
    and rest: "summaryUsers env cal groupBy dateRange (fst acc + ud_time u, items) us = Inr acc'"
    by (auto simp: Let_def split: sum.splits)
  have "\<forall>p\<in>set items. balanced (snd p)"
    using items Cons.prems(2) by (rule summaryTasks_balanced)
  then show ?case
    using Cons.IH[OF rest] by simp
qed

lemma toGroupSummary_balanced:
  "balanced (snd entry) \<Longrightarrow>
   sum_list (map gt_time (gs_tasks (toGroupSummary tt entry))) = gs_time (toGroupSummary tt entry)"
  by (simp add: toGroupSummary_def Let_def sum_list_sort_key balanced_def toTaskShare_def comp_def)

lemma summaryPayload_balanced:
  assumes "summaryPayload env cal now parameters = Inr payload"
  shows "\<forall>g\<in>set (sp_summary payload). sum_list (map gt_time (gs_tasks g)) = gs_time g"
proof -
  from assms obtain tt items dateRange groupBy report where
    loops: "(case report of None \<Rightarrow> Inr (0, [])
             | Some data \<Rightarrow> summaryUsers env cal groupBy dateRange (0, []) data) = Inr (tt, items)"
    and sm: "sp_summary payload = sort_key (\<lambda>g. - gs_time g) (map (toGroupSummary tt) items)"
    by (auto simp: summaryPayload_def Let_def split: sum.splits prod.splits)
  have "\<forall>p\<in>set items. balanced (snd p)"
  proof (cases report)
    case None
    with loops show ?thesis by simp
  next
    case (Some data)
    with loops have "summaryUsers env cal groupBy dateRange (0, []) data = Inr (tt, items)"
      by simp
    from summaryUsers_balanced[OF this] show ?thesis by simp
  qed
  then show ?thesis
    by (auto simp: sm toGroupSummary_balanced)
qed

lemma handleGetTimeTrackingSummary_Json:
  "handleGetTimeTrackingSummary env cal now parameters = SummaryJson payload \<longleftrightarrow>
   summaryPayload env cal now parameters = Inr payload"
  by (simp add: handleGetTimeTrackingSummary_def split: sum.splits)

subsection \<open>Sample runs\<close>

lemmas summary_run_defs = handleGetTimeTrackingSummary_def summaryPayload_def example_env_def
  example_params_def example_report_def idle_report_def summary_dateRange_def truthy_def
  accumulate_def alist_ensure_def toGroupSummary_def toTaskShare_def percentOf_samples
  periodText_def Let_def

lemma example_by_task:
  "handleGetTimeTrackingSummary (example_env example_report) utc_calendar 1700000000000
     (example_params ''task'') =
   SummaryJson
     \<lparr> sp_period = ''Custom period'', sp_groupedBy = ''task'', sp_totalTime = 9000000,
       sp_dateRange = \<lparr> start_text = ''1699833600000'', end_text = ''1700000000000'' \<rparr>,
       sp_summary =
         [\<lparr> gs_groupKey = ''t1'', gs_groupName = ''A'', gs_time = 4500000,
            gs_percentage = Finite 50,
            gs_tasks = [\<lparr> gt_id = ''t1'', gt_name = ''A'', gt_time = 4500000,
                          gt_percentage = Finite 100 \<rparr>] \<rparr>,
          \<lparr> gs_groupKey = ''t2'', gs_groupName = ''B'', gs_time = 1800000,
            gs_percentage = Finite 20,
            gs_tasks = [\<lparr> gt_id = ''t2'', gt_name = ''B'', gt_time = 1800000,
                          gt_percentage = Finite 100 \<rparr>] \<rparr>] \<rparr>"
  by (simp add: summary_run_defs)

lemma example_by_list:
  "handleGetTimeTrackingSummary (example_env example_report) utc_calendar 1700000000000
     (example_params ''list'') =
   SummaryJson
     \<lparr> sp_period = ''Custom period'', sp_groupedBy = ''list'', sp_totalTime = 9000000,
       sp_dateRange = \<lparr> start_text = ''1699833600000'', end_text = ''1700000000000'' \<rparr>,
       sp_summary =
         [\<lparr> gs_groupKey = ''l1'', gs_groupName = ''Sprint'', gs_time = 6300000,
            gs_percentage = Finite 70,
            gs_tasks = [\<lparr> gt_id = ''t1'', gt_name = ''A'', gt_time = 4500000,
                          gt_percentage = Finite 71 \<rparr>,
                        \<lparr> gt_id = ''t2'', gt_name = ''B'', gt_time = 1800000,
                          gt_percentage = Finite 29 \<rparr>] \<rparr>] \<rparr>"
  by (simp add: summary_run_defs)

lemma idle_by_task:
  "handleGetTimeTrackingSummary (example_env idle_report) utc_calendar 1700000000000
     (example_params ''task'') =
   SummaryJson
     \<lparr> sp_period = ''Custom period'', sp_groupedBy = ''task'', sp_totalTime = 0,
       sp_dateRange = \<lparr> start_text = ''1699833600000'', end_text = ''1700000000000'' \<rparr>,
       sp_summary =
         [\<lparr> gs_groupKey = ''t1'', gs_groupName = ''A'', gs_time = 0, gs_percentage = NaN,
            gs_tasks = [\<lparr> gt_id = ''t1'', gt_name = ''A'', gt_time = 0,
                          gt_percentage = NaN \<rparr>] \<rparr>] \<rparr>"
  by (simp add: summary_run_defs)

text \<open>
  Claim C7. Whatever the report, the grouping, the collaborators' answers and the
  parameters, when the summary handler returns a summary, in each of its groups the
  times of the group's tasks add up to the group's time exactly.
\<close>

theorem group_time_is_sum_of_task_times:
  assumes "handleGetTimeTrackingSummary env cal now parameters = SummaryJson payload"
  shows "\<forall>g\<in>set (sp_summary payload). sum_list (map gt_time (gs_tasks g)) = gs_time g"
  using assms summaryPayload_balanced
  by (simp only: handleGetTimeTrackingSummary_Json)

theorem group_time_is_sum_of_task_times_witness:
  "(case handleGetTimeTrackingSummary (example_env example_report) utc_calendar 1700000000000
           (example_params ''list'') of
      SummaryJson payload \<Rightarrow>
        map (\<lambda>g. (gs_time g, sum_list (map gt_time (gs_tasks g)), map gt_time (gs_tasks g)))
          (sp_summary payload)
    | SummaryErrorText m \<Rightarrow> []) = [(6300000, 6300000, [4500000, 1800000])]"
  using group_time_is_sum_of_task_times[OF example_by_list]
  by (simp add: example_by_list)

subsection \<open>The grand total\<close>

lemma summaryUsers_total:
  "summaryUsers env cal groupBy dateRange acc users = Inr acc' \<Longrightarrow>
   fst acc' = fst acc + sum_list (map ud_time users)"
proof (induction users arbitrary: acc)
  case Nil
  then show ?case by simp
next
  case (Cons u us)
  from Cons.prems obtain items where
    rest: "summaryUsers env cal groupBy dateRange (fst acc + ud_time u, items) us = Inr acc'"
    by (auto simp: Let_def split: sum.splits)
  from Cons.IH[OF rest] show ?case by simp
qed

lemma reportUsers_total:
  "fst (reportUsers totalTime taskSummaries users) = totalTime + sum_list (map ud_time users)"
  by (induction users arbitrary: totalTime taskSummaries) (simp_all add: Let_def)

lemma summaryPayload_total:
  assumes "summary_dateRange cal now (p_period ps) (p_start_date ps) (p_end_date ps) = Inr dr"
    and "getTimeTrackingReport env dr = Inr (Some data)"
    and "summaryPayload env cal now ps = Inr payload"
  shows "sp_totalTime payload = sum_list (map ud_time data)"
proof -
  from assms obtain tt items groupBy where
    loops: "summaryUsers env cal groupBy dr (0, []) data = Inr (tt, items)"
    and tt: "sp_totalTime payload = tt"
    by (auto simp: summaryPayload_def Let_def split: sum.splits prod.splits)
  from summaryUsers_total[OF loops] tt show ?thesis by simp
qed

lemma getTimeTrackingReport_handler_total:
  assumes "getDateRangeForPeriod cal now period = Inr dr"
    and "fetch dr = Inr (Some data)"
  shows "\<exists>res. getTimeTrackingReport_handler cal now fetch period = Inr res \<and>
               rr_total_time res = formatDuration (sum_list (map ud_time data))"
proof -
  obtain tt ts where r: "reportUsers 0 [] data = (tt, ts)"
    by (cases "reportUsers 0 [] data")
  with reportUsers_total[of 0 "[]" data] have "tt = sum_list (map ud_time data)"
    by simp
  with r assms show ?thesis
    by (simp add: getTimeTrackingReport_handler_def)
qed

lemma formatDuration_9000000: "formatDuration 9000000 = ''2h 30m''"
  by (simp add: formatDuration_def Let_def js_rem_def showInt_def showNat.simps trim_def
      isWhiteSpace_def)

lemma formatDuration_6300000: "formatDuration 6300000 = ''1h 45m''"
  by (simp add: formatDuration_def Let_def js_rem_def showInt_def showNat.simps trim_def
      isWhiteSpace_def)

lemma perTaskTotal_example: "perTaskTotal example_report = 6300000"
  by (simp add: perTaskTotal_def example_report_def)

lemma example_custom_range:
  "summary_dateRange utc_calendar 1700000000000 ''custom'' (Some ''1699833600000'')
     (Some ''1700000000000'') =
   Inr \<lparr> start_text = ''1699833600000'', end_text = ''1700000000000'' \<rparr>"
  by (simp add: summary_dateRange_def truthy_def)

text \<open>
  Claim C1 as the code has it. In the summary handler and in the report handler the grand
  total is the sum of the user-level \<open>time\<close> fields of the report's records
  (\<open>totalTime += userData.time\<close>); the per-task times do not enter it. The summary handler
  puts the number in \<open>totalTime\<close>, the report handler its formatted form in \<open>total_time\<close>.
\<close>

theorem total_time_is_sum_of_user_times:
  "(summary_dateRange cal now (p_period ps) (p_start_date ps) (p_end_date ps) = Inr dr \<and>
    getTimeTrackingReport env dr = Inr (Some data) \<and>
    handleGetTimeTrackingSummary env cal now ps = SummaryJson payload
      \<longrightarrow> sp_totalTime payload = sum_list (map ud_time data)) \<and>
   (getDateRangeForPeriod cal now period = Inr dr' \<and> fetch dr' = Inr (Some data')
      \<longrightarrow> (\<exists>res. getTimeTrackingReport_handler cal now fetch period = Inr res \<and>
                 rr_total_time res = formatDuration (sum_list (map ud_time data'))))"
  using summaryPayload_total getTimeTrackingReport_handler_total
  unfolding handleGetTimeTrackingSummary_Json
  by blast

theorem total_time_is_sum_of_user_times_witness:
  "sum_list (map ud_time example_report) = 9000000 \<and>
   (case handleGetTimeTrackingSummary (example_env example_report) utc_calendar 1700000000000
           (example_params ''task'') of
      SummaryJson payload \<Rightarrow> sp_totalTime payload | SummaryErrorText m \<Rightarrow> 0) = 9000000 \<and>
   (\<exists>res. getTimeTrackingReport_handler utc_calendar 1700000000000
            (\<lambda>r. Inr (Some example_report)) ''yesterday'' = Inr res \<and>
          rr_total_time res = ''2h 30m'')"
proof -
  have s: "sum_list (map ud_time example_report) = 9000000"
    by (simp add: example_report_def)
  have env: "getTimeTrackingReport (example_env example_report)
               \<lparr> start_text = ''1699833600000'', end_text = ''1700000000000'' \<rparr> =
             Inr (Some example_report)"
    by (simp add: example_env_def)
  have ps: "p_period (example_params ''task'') = ''custom''"
    "p_start_date (example_params ''task'') = Some ''1699833600000''"
    "p_end_date (example_params ''task'') = Some ''1700000000000''"
    by (simp_all add: example_params_def)
  note inst = total_time_is_sum_of_user_times[of utc_calendar 1700000000000
      "example_params ''task''" _ "example_env example_report" example_report _
      "''yesterday''" _ "\<lambda>r. Inr (Some example_report)" example_report]
  from inst[THEN conjunct1, rule_format, OF conjI, OF _ conjI, OF _ env example_by_task]
    example_custom_range
  have b: "sp_totalTime
             \<lparr> sp_period = ''Custom period'', sp_groupedBy = ''task'', sp_totalTime = 9000000,
               sp_dateRange = \<lparr> start_text = ''1699833600000'', end_text = ''1700000000000'' \<rparr>,
               sp_summary =
                 [\<lparr> gs_groupKey = ''t1'', gs_groupName = ''A'', gs_time = 4500000,
                    gs_percentage = Finite 50,
                    gs_tasks = [\<lparr> gt_id = ''t1'', gt_name = ''A'', gt_time = 4500000,
                                  gt_percentage = Finite 100 \<rparr>] \<rparr>,
                  \<lparr> gs_groupKey = ''t2'', gs_groupName = ''B'', gs_time = 1800000,
                    gs_percentage = Finite 20,
                    gs_tasks = [\<lparr> gt_id = ''t2'', gt_name = ''B'', gt_time = 1800000,
                                  gt_percentage = Finite 100 \<rparr>] \<rparr>] \<rparr>
            = sum_list (map ud_time example_report)"
    by (simp add: ps)
  from inst[THEN conjunct2, rule_format, OF conjI, OF tools_yesterday_1700000000000]
  have a: "\<exists>res. getTimeTrackingReport_handler utc_calendar 1700000000000
                   (\<lambda>r. Inr (Some example_report)) ''yesterday'' = Inr res \<and>
                 rr_total_time res = formatDuration (sum_list (map ud_time example_report))"
    by simp
  from a b s show ?thesis
    by (simp add: example_by_task formatDuration_9000000)
qed

text \<open>
  Claim C1 as the specification words it: the total would be the sum of the per-task
  times. On the sample report the per-task times add up to 6300000 ms (\<open>1h 45m\<close>), and
  both handlers report 9000000 ms (\<open>2h 30m\<close>), the sum of the two user-level fields.
\<close>

theorem total_time_not_per_task_counterexample:
  "perTaskTotal example_report = 6300000 \<and>
   formatDuration (perTaskTotal example_report) = ''1h 45m'' \<and>
   (case handleGetTimeTrackingSummary (example_env example_report) utc_calendar 1700000000000
           (example_params ''task'') of
      SummaryJson payload \<Rightarrow> sp_totalTime payload | SummaryErrorText m \<Rightarrow> 0) = 9000000 \<and>
   (case getTimeTrackingReport_handler utc_calendar 1700000000000
           (\<lambda>r. Inr (Some example_report)) ''yesterday'' of
      Inr res \<Rightarrow> rr_total_time res | Inl e \<Rightarrow> '''') = ''2h 30m''"
proof -
  have "\<exists>res. getTimeTrackingReport_handler utc_calendar 1700000000000
                (\<lambda>r. Inr (Some example_report)) ''yesterday'' = Inr res \<and>
              rr_total_time res = formatDuration (sum_list (map ud_time example_report))"
    by (rule getTimeTrackingReport_handler_total[OF tools_yesterday_1700000000000]) simp
  moreover have "sum_list (map ud_time example_report) = 9000000"
    by (simp add: example_report_def)
  ultimately show ?thesis
    by (auto simp: perTaskTotal_example formatDuration_6300000 formatDuration_9000000
        example_by_task)
qed

subsection \<open>Percentages over a zero whole\<close>

lemma report_idle_percentages:
  "(case getTimeTrackingReport_handler utc_calendar 1700000000000
           (\<lambda>r. Inr (Some idle_report)) ''yesterday'' of
      Inr res \<Rightarrow> map ts_percentage (rr_tasks res) | Inl e \<Rightarrow> []) = [NaN]"
  by (simp add: getTimeTrackingReport_handler_def tools_yesterday_1700000000000 idle_report_def
      reportTask_def percentOf_samples Let_def)

lemma toGroupSummary_percentages:
  "gs_percentage (toGroupSummary tt entry) = percentOf (gs_time (toGroupSummary tt entry)) tt \<and>
   (\<forall>t\<in>set (gs_tasks (toGroupSummary tt entry)).
      gt_percentage t = percentOf (gt_time t) (gs_time (toGroupSummary tt entry)))"
  by (auto simp: toGroupSummary_def Let_def toTaskShare_def)

lemma summaryPayload_percentages:
  assumes "summaryPayload env cal now parameters = Inr payload"
  shows "\<forall>g\<in>set (sp_summary payload).
           gs_percentage g = percentOf (gs_time g) (sp_totalTime payload) \<and>
           (\<forall>t\<in>set (gs_tasks g). gt_percentage t = percentOf (gt_time t) (gs_time g))"
proof -
  from assms obtain tt items where
    sm: "sp_summary payload = sort_key (\<lambda>g. - gs_time g) (map (toGroupSummary tt) items)"
    and tt: "sp_totalTime payload = tt"
    by (auto simp: summaryPayload_def Let_def split: sum.splits prod.splits)
  show ?thesis
  proof
    fix g
    assume "g \<in> set (sp_summary payload)"
    then obtain entry where "g = toGroupSummary tt entry"
      by (auto simp: sm)
    then show "gs_percentage g = percentOf (gs_time g) (sp_totalTime payload) \<and>
               (\<forall>t\<in>set (gs_tasks g). gt_percentage t = percentOf (gt_time t) (gs_time g))"
      using toGroupSummary_percentages[of tt entry] by (simp add: tt)
  qed
qed

lemma reportUsers_zero_whole:
  assumes "\<forall>u\<in>set users. ud_time u = 0"
    and "\<forall>s\<in>set taskSummaries. ts_percentage s = percentOf (ts_time s) 0"
  shows "\<forall>s\<in>set (snd (reportUsers 0 taskSummaries users)).
           ts_percentage s = percentOf (ts_time s) 0"
  using assms
proof (induction users arbitrary: taskSummaries)
  case Nil
  then show ?case by simp
next
  case (Cons u us)
  have "\<forall>s\<in>set (taskSummaries @ map (reportTask 0) (ud_tasks u)).
          ts_percentage s = percentOf (ts_time s) 0"
    using Cons.prems(2) by (auto simp: reportTask_def Let_def)
  from Cons.IH[OF _ this] Cons.prems(1) show ?case
    by (simp add: Let_def)
qed

lemma getTimeTrackingReport_handler_zero_whole:
  assumes "getDateRangeForPeriod cal now period = Inr dr"
    and "fetch dr = Inr (Some data)"
    and "\<forall>u\<in>set data. ud_time u = 0"
    and "getTimeTrackingReport_handler cal now fetch period = Inr res"
  shows "\<forall>s\<in>set (rr_tasks res). ts_percentage s = percentOf (ts_time s) 0"
proof -
  obtain tt ts where r: "reportUsers 0 [] data = (tt, ts)"
    by (cases "reportUsers 0 [] data")
  with assms have "rr_tasks res = sort_key (\<lambda>s. - ts_time s) ts"
    by (auto simp: getTimeTrackingReport_handler_def)
  moreover have "\<forall>s\<in>set ts. ts_percentage s = percentOf (ts_time s) 0"
    using reportUsers_zero_whole[OF assms(3), of "[]"] r by simp
  ultimately show ?thesis by simp
qed

text \<open>
  Claim C2 as the code has it. The expression \<open>Math.round((part / whole) * 100)\<close> has no
  guard for a zero whole. With \<open>whole = 0\<close> nothing is thrown, and the value is \<open>NaN\<close> for
  \<open>part = 0\<close>, \<open>Infinity\<close> for a positive part and \<open>-Infinity\<close> for a negative one; in
  the text that the handlers return, \<open>JSON.stringify\<close> writes each of them as \<open>null\<close>.
  In a summary every group's percentage is that expression over the total time and every
  task's percentage that expression over its group's time, so they are written \<open>null\<close>
  when the total, or the group's time, is 0. In a report whose user records all have the
  time 0, every task's percentage is written \<open>null\<close>.
\<close>

theorem percentage_of_zero_whole:
  "(\<forall>x. percentOf x 0 = (if x = 0 then NaN else if 0 < x then PosInfinity else NegInfinity) \<and>
        JSON_stringify_number (percentOf x 0) = JsonNull) \<and>
   (handleGetTimeTrackingSummary env cal now parameters = SummaryJson payload \<longrightarrow>
      (\<forall>g\<in>set (sp_summary payload).
         gs_percentage g = percentOf (gs_time g) (sp_totalTime payload) \<and>
         (sp_totalTime payload = 0 \<longrightarrow> JSON_stringify_number (gs_percentage g) = JsonNull) \<and>
         (\<forall>t\<in>set (gs_tasks g).
            gt_percentage t = percentOf (gt_time t) (gs_time g) \<and>
            (gs_time g = 0 \<longrightarrow> JSON_stringify_number (gt_percentage t) = JsonNull)))) \<and>
   (getDateRangeForPeriod cal' now' period = Inr dr \<and> fetch dr = Inr (Some data) \<and>
    (\<forall>u\<in>set data. ud_time u = 0) \<and>
    getTimeTrackingReport_handler cal' now' fetch period = Inr res \<longrightarrow>
      (\<forall>s\<in>set (rr_tasks res).
         ts_percentage s = percentOf (ts_time s) 0 \<and>
         JSON_stringify_number (ts_percentage s) = JsonNull))"
proof (intro conjI allI impI)
  fix x
  show "percentOf x 0 = (if x = 0 then NaN else if 0 < x then PosInfinity else NegInfinity)"
    by (rule percentOf_zero_whole)
  show "JSON_stringify_number (percentOf x 0) = JsonNull"
    by (rule JSON_stringify_zero_whole)
next
  assume "handleGetTimeTrackingSummary env cal now parameters = SummaryJson payload"
  then have "summaryPayload env cal now parameters = Inr payload"
    by (simp only: handleGetTimeTrackingSummary_Json)
  from summaryPayload_percentages[OF this]
  show "\<forall>g\<in>set (sp_summary payload).
          gs_percentage g = percentOf (gs_time g) (sp_totalTime payload) \<and>
          (sp_totalTime payload = 0 \<longrightarrow> JSON_stringify_number (gs_percentage g) = JsonNull) \<and>
          (\<forall>t\<in>set (gs_tasks g).
             gt_percentage t = percentOf (gt_time t) (gs_time g) \<and>
             (gs_time g = 0 \<longrightarrow> JSON_stringify_number (gt_percentage t) = JsonNull))"
    by (auto simp: JSON_stringify_zero_whole)
next
  assume "getDateRangeForPeriod cal' now' period = Inr dr \<and> fetch dr = Inr (Some data) \<and>
          (\<forall>u\<in>set data. ud_time u = 0) \<and>
          getTimeTrackingReport_handler cal' now' fetch period = Inr res"
  then have "\<forall>s\<in>set (rr_tasks res). ts_percentage s = percentOf (ts_time s) 0"
    using getTimeTrackingReport_handler_zero_whole[of cal' now' period dr fetch data res]
    by blast
  then show "\<forall>s\<in>set (rr_tasks res).
               ts_percentage s = percentOf (ts_time s) 0 \<and>
               JSON_stringify_number (ts_percentage s) = JsonNull"
    by (auto simp: JSON_stringify_zero_whole)
qed

theorem percentage_of_zero_whole_witness:
  "(case handleGetTimeTrackingSummary (example_env idle_report) utc_calendar 1700000000000
           (example_params ''task'') of
      SummaryJson payload \<Rightarrow>
        (sp_totalTime payload,
         map (\<lambda>g. (gs_time g, JSON_stringify_number (gs_percentage g),
                    map (\<lambda>t. JSON_stringify_number (gt_percentage t)) (gs_tasks g)))
           (sp_summary payload))
    | SummaryErrorText m \<Rightarrow> (1, [])) = (0, [(0, JsonNull, [JsonNull])]) \<and>
   map ud_time idle_report = [0] \<and>
   (case getTimeTrackingReport_handler utc_calendar 1700000000000
           (\<lambda>r. Inr (Some idle_report)) ''yesterday'' of
      Inr res \<Rightarrow> map (\<lambda>s. JSON_stringify_number (ts_percentage s)) (rr_tasks res)
    | Inl e \<Rightarrow> []) = [JsonNull]"
proof -
  note inst = percentage_of_zero_whole[of "example_env idle_report" utc_calendar 1700000000000
      "example_params ''task''" _ utc_calendar 1700000000000 "''yesterday''" _
      "\<lambda>r. Inr (Some idle_report)" idle_report]
  have idle: "\<forall>u\<in>set idle_report. ud_time u = 0"
    by (simp add: idle_report_def)
  from inst[THEN conjunct2, THEN conjunct1, THEN mp, OF idle_by_task]
  have a: "JSON_stringify_number NaN = JsonNull"
    by simp
  obtain res where res: "getTimeTrackingReport_handler utc_calendar 1700000000000
                           (\<lambda>r. Inr (Some idle_report)) ''yesterday'' = Inr res"
    using getTimeTrackingReport_handler_total[OF tools_yesterday_1700000000000,
        of "\<lambda>r. Inr (Some idle_report)" idle_report]
    by auto
  from inst[THEN conjunct2, THEN conjunct2, THEN mp, OF conjI, OF tools_yesterday_1700000000000
      conjI, OF _ conjI, OF _ idle res]
  have b: "\<forall>s\<in>set (rr_tasks res). JSON_stringify_number (ts_percentage s) = JsonNull"
    by blast
  have "map ts_percentage (rr_tasks res) = [NaN]"
    using report_idle_percentages by (simp add: res)
  then obtain s where s: "rr_tasks res = [s]"
    by auto
  with b have "JSON_stringify_number (ts_percentage s) = JsonNull"
    by simp
  moreover have "map ud_time idle_report = [0]"
    by (simp add: idle_report_def)
  ultimately show ?thesis
    using a s by (simp add: idle_by_task res)
qed

text \<open>
  Claim C2 as the specification words it: the percentage over a zero whole would be 0.
  It is \<open>NaN\<close> or \<open>Infinity\<close>; for a report whose only task has no time both handlers
  compute \<open>NaN\<close> and write \<open>null\<close>, not the numeral of 0.
\<close>

theorem percentage_of_zero_whole_counterexample:
  "percentOf 0 0 \<noteq> Finite 0 \<and> percentOf 0 0 = NaN \<and> percentOf 5 0 = PosInfinity \<and>
   (case handleGetTimeTrackingSummary (example_env idle_report) utc_calendar 1700000000000
           (example_params ''task'') of
      SummaryJson payload \<Rightarrow>
        map (\<lambda>g. (gs_percentage g, map gt_percentage (gs_tasks g))) (sp_summary payload)
    | SummaryErrorText m \<Rightarrow> []) = [(NaN, [NaN])] \<and>
   (case getTimeTrackingReport_handler utc_calendar 1700000000000
           (\<lambda>r. Inr (Some idle_report)) ''yesterday'' of
      Inr res \<Rightarrow> map ts_percentage (rr_tasks res) | Inl e \<Rightarrow> []) = [NaN] \<and>
   JSON_stringify_number NaN = JsonNull \<and>
   JSON_stringify_number NaN \<noteq> JsonNumber 0"
  using report_idle_percentages
  by (simp add: percentOf_zero_whole idle_by_task JSON_stringify_number_def)

subsection \<open>Periods outside the enumerated tokens\<close>

text \<open>
  Claim C4 at the instant 1700000000000 in UTC, for the period \<open>next_week\<close>, which is none
  of the enumerated tokens. The summary handler resolves it to today's range and returns
  a summary, with an empty period label, as if \<open>today\<close> had been asked for.
\<close>

theorem summary_unknown_period_is_today:
  "summary_dateRange utc_calendar 1700000000000 ''next_week'' None None =
     Inr \<lparr> start_text = ''1699920000000'', end_text = ''1700000000000'' \<rparr> \<and>
   handleGetTimeTrackingSummary (example_env example_report) utc_calendar 1700000000000
     \<lparr> p_period = ''next_week'', p_start_date = None, p_end_date = None, p_groupBy = None \<rparr> =
   SummaryJson
     \<lparr> sp_period = '''', sp_groupedBy = ''task'', sp_totalTime = 9000000,
       sp_dateRange = \<lparr> start_text = ''1699920000000'', end_text = ''1700000000000'' \<rparr>,
       sp_summary =
         [\<lparr> gs_groupKey = ''t1'', gs_groupName = ''A'', gs_time = 4500000,
            gs_percentage = Finite 50,
            gs_tasks = [\<lparr> gt_id = ''t1'', gt_name = ''A'', gt_time = 4500000,
                          gt_percentage = Finite 100 \<rparr>] \<rparr>,
          \<lparr> gs_groupKey = ''t2'', gs_groupName = ''B'', gs_time = 1800000,
            gs_percentage = Finite 20,
            gs_tasks = [\<lparr> gt_id = ''t2'', gt_name = ''B'', gt_time = 1800000,
                          gt_percentage = Finite 100 \<rparr>] \<rparr>] \<rparr>"
proof -
  have dr: "summary_dateRange utc_calendar 1700000000000 ''next_week'' None None =
            Inr \<lparr> start_text = ''1699920000000'', end_text = ''1700000000000'' \<rparr>"
    by (simp add: summary_dateRange_unknown summary_today_1700000000000)
  show ?thesis
    by (simp add: dr handleGetTimeTrackingSummary_def summaryPayload_def example_env_def
        example_report_def accumulate_def alist_ensure_def toGroupSummary_def toTaskShare_def
        percentOf_samples periodText_def Let_def)
qed

theorem summary_unknown_period_is_today_witness:
  "\<exists>payload.
     handleGetTimeTrackingSummary (example_env example_report) utc_calendar 1700000000000
       \<lparr> p_period = ''next_week'', p_start_date = None, p_end_date = None, p_groupBy = None \<rparr> =
     SummaryJson payload \<and>
     sp_period payload = '''' \<and>
     sp_dateRange payload = \<lparr> start_text = ''1699920000000'', end_text = ''1700000000000'' \<rparr> \<and>
     sp_totalTime payload = 9000000"
  using summary_unknown_period_is_today by simp

text \<open>
  The other outcomes named by claim C4 are as stated: the summary handler answers a
  \<open>custom\<close> period that lacks a bound with an error text, and the report handler of
  tools/timetracking.ts throws for every period outside its six tokens.
\<close>

lemma handleGetTimeTrackingSummary_custom_missing:
  assumes "p_period ps = ''custom''"
    and "\<not> truthy (p_start_date ps) \<or> \<not> truthy (p_end_date ps)"
  shows "handleGetTimeTrackingSummary env cal now ps =
         SummaryErrorText
           ''Error getting time tracking summary: Custom period requires both start_date and end_date''"
  using assms summary_dateRange_custom_missing[OF assms(2), of cal now]
  by (simp add: handleGetTimeTrackingSummary_def summaryPayload_def Let_def)

lemma getTimeTrackingReport_handler_invalid:
  assumes "period \<notin> {''today'', ''yesterday'', ''this_week'', ''last_week'', ''this_month'',
                      ''last_month''}"
  shows "getTimeTrackingReport_handler cal now fetch period =
         Inl (Error (''Invalid period: '' @ period))"
  using getDateRangeForPeriod_invalid[OF assms, of cal now]
  by (simp add: getTimeTrackingReport_handler_def)

section \<open>Properties of the task-name resolution\<close>

lemma find_append_first:
  "List.find P (xs @ ys) = (case List.find P xs of Some x \<Rightarrow> Some x | None \<Rightarrow> List.find P ys)"
  by (induction xs) auto

lemma searchLists_append:
  "searchLists env taskName (xs @ ys) =
     (case searchLists env taskName xs of
        Inl e \<Rightarrow> Inl e
      | Inr (Some found) \<Rightarrow> Inr (Some found)
      | Inr None \<Rightarrow> searchLists env taskName ys)"
  by (induction xs) (auto split: sum.splits option.splits)

lemma searchFolders_flat:
  "searchFolders env taskName folders =
     searchLists env taskName (concat (map (\<lambda>folder. filter isList (children folder)) folders))"
  by (induction folders) (auto simp: searchLists_append split: sum.splits option.splits)

lemma searchSpaces_flat:
  "searchSpaces env taskName spaces =
     searchLists env taskName
       (concat (map (\<lambda>space. filter isList (children space) @
                              concat (map (\<lambda>folder. filter isList (children folder))
                                        (filter isFolder (children space))))
                  spaces))"
  by (induction spaces)
     (auto simp: searchLists_append searchFolders_flat split: sum.splits option.splits)

lemma searchSpaces_traversal:
  "searchSpaces env taskName (children root) = searchLists env taskName (traversalLists root)"
  by (simp add: searchSpaces_flat traversalLists_def)

lemma searchLists_first_match:
  assumes "\<forall>l\<in>set ls. getTasks env (node_id l) = Inr (tasksOf (node_id l))"
  shows "searchLists env taskName ls =
         Inr (map_option task_id
                (List.find (nameMatches taskName) (concat (map (\<lambda>l. tasksOf (node_id l)) ls))))"
  using assms
  by (induction ls) (auto simp: find_append_first split: option.splits)



lemma toLowerCase_Fix_Bug: "toLowerCase ''Fix Bug'' = ''fix bug'' \<and> toLowerCase ''fix bug'' = ''fix bug''"
  by (simp add: toLowerCase_def toLowerChar_def)

lemma toLowerCase_other:
  "toLowerCase ''Write docs'' = ''write docs''" "toLowerCase ''Deploy'' = ''deploy''"
  by (simp_all add: toLowerCase_def toLowerChar_def)

lemma example_traversal:
  "traversalLists example_root = [Node ''L1'' ''Sprint'' ''list'' [], Node ''L2'' ''Later'' ''list'' []]"
  by (simp add: traversalLists_def example_root_def isList_def isFolder_def)

lemma example_fetches:
  "\<forall>l\<in>set (traversalLists example_root).
     getTasks example_resolver (node_id l) = Inr (example_tasksOf (node_id l))"
  by (simp add: example_resolver_def)

lemma example_spec_fix_bug: "spec_resolveTaskId example_tasksOf example_root ''fix bug'' = Some ''a2''"
  by (simp add: spec_resolveTaskId_def example_traversal example_tasksOf_def
      toLowerCase_Fix_Bug toLowerCase_other)

lemma searchLists_first_list:
  assumes "\<forall>l'\<in>set pre. \<exists>ts'. getTasks env (node_id l') = Inr ts' \<and>
                               (\<forall>t'\<in>set ts'. \<not> nameMatches taskName t')"
    and "getTasks env (node_id l) = Inr ts"
    and "List.find (nameMatches taskName) ts = Some t"
  shows "searchLists env taskName (pre @ l # post) = Inr (Some (task_id t))"
  using assms
proof (induction pre)
  case Nil
  then show ?case by simp
next
  case (Cons p pre)
  from Cons.prems(1) obtain ts' where
    p: "getTasks env (node_id p) = Inr ts'" "\<forall>t'\<in>set ts'. \<not> nameMatches taskName t'"
    by auto
  then have "List.find (nameMatches taskName) ts' = None"
    by (simp add: find_None_iff)
  with p(1) Cons show ?case by simp
qed

text \<open>
  Claim C6. When the hierarchy fetch and the task listings of the traversed lists
  succeed, \<open>findTaskIDByName\<close> returns what the specification asks for: the id of the
  first task, in traversal order (space after space; in a space its direct lists first,
  then the lists of its folders), whose name equals the query once both are in lower
  case, and \<open>undefined\<close> when there is none. More precisely, the first list of the
  traversal that holds such a task decides, once the listings of the lists before it
  have succeeded: the result is that list's first such task, whatever later lists hold;
  no error is raised for further tasks of the same name.
\<close>

theorem findTaskIDByName_first_match:
  assumes "getWorkspaceHierarchy env = Inr root"
  shows "((\<forall>l\<in>set (traversalLists root). getTasks env (node_id l) = Inr (tasksOf (node_id l)))
            \<longrightarrow> findTaskIDByName env taskName = spec_resolveTaskId tasksOf root taskName) \<and>
         (\<forall>pre l post ts t.
            traversalLists root = pre @ l # post \<and>
            (\<forall>l'\<in>set pre. \<exists>ts'. getTasks env (node_id l') = Inr ts' \<and>
               (\<forall>t'\<in>set ts'. toLowerCase (task_name t') \<noteq> toLowerCase taskName)) \<and>
            getTasks env (node_id l) = Inr ts \<and>
            List.find (\<lambda>t'. toLowerCase (task_name t') = toLowerCase taskName) ts = Some t
            \<longrightarrow> findTaskIDByName env taskName = Some (task_id t))"
proof -
  let ?P = "\<lambda>t. toLowerCase (task_name t) = toLowerCase taskName"
  have m: "nameMatches taskName = ?P"
    by (simp add: nameMatches_def fun_eq_iff)
  have eq: "findTaskIDByName env taskName = spec_resolveTaskId tasksOf root taskName"
    if "\<forall>l\<in>set (traversalLists root). getTasks env (node_id l) = Inr (tasksOf (node_id l))"
    using assms searchLists_first_match[OF that, of taskName]
    by (simp add: findTaskIDByName_def searchSpaces_traversal spec_resolveTaskId_def m)
  have first: "findTaskIDByName env taskName = Some (task_id t)"
    if "traversalLists root = pre @ l # post"
      and "\<forall>l'\<in>set pre. \<exists>ts'. getTasks env (node_id l') = Inr ts' \<and> (\<forall>t'\<in>set ts'. \<not> ?P t')"
      and "getTasks env (node_id l) = Inr ts"
      and "List.find ?P ts = Some t"
    for pre l post ts t
    using assms searchLists_first_list[of pre env taskName l ts t post] that
    by (simp add: findTaskIDByName_def searchSpaces_traversal m)
  from eq first show ?thesis by blast
qed

theorem findTaskIDByName_first_match_witness:
  "getWorkspaceHierarchy example_resolver = Inr example_root \<and>
   traversalLists example_root =
     [] @ Node ''L1'' ''Sprint'' ''list'' [] # [Node ''L2'' ''Later'' ''list'' []] \<and>
   getTasks example_resolver ''L1'' =
     Inr [\<lparr> task_id = ''a1'', task_name = ''Write docs'' \<rparr>,
          \<lparr> task_id = ''a2'', task_name = ''Fix Bug'' \<rparr>] \<and>
   getTasks example_resolver ''L2'' = Inr [\<lparr> task_id = ''b1'', task_name = ''Fix Bug'' \<rparr>] \<and>
   findTaskIDByName example_resolver ''fix bug'' = Some ''a2'' \<and>
   spec_resolveTaskId example_tasksOf example_root ''fix bug'' = Some ''a2''"
proof -
  have h: "getWorkspaceHierarchy example_resolver = Inr example_root"
    by (simp add: example_resolver_def)
  have t: "traversalLists example_root =
             [] @ Node ''L1'' ''Sprint'' ''list'' [] # [Node ''L2'' ''Later'' ''list'' []]"
    by (simp add: example_traversal)
  have g: "getTasks example_resolver (node_id (Node ''L1'' ''Sprint'' ''list'' [])) =
             Inr [\<lparr> task_id = ''a1'', task_name = ''Write docs'' \<rparr>,
                  \<lparr> task_id = ''a2'', task_name = ''Fix Bug'' \<rparr>]"
    by (simp add: example_resolver_def example_tasksOf_def)
  have f: "List.find (\<lambda>t'. toLowerCase (task_name t') = toLowerCase ''fix bug'')
             [\<lparr> task_id = ''a1'', task_name = ''Write docs'' \<rparr>,
              \<lparr> task_id = ''a2'', task_name = ''Fix Bug'' \<rparr>] =
           Some \<lparr> task_id = ''a2'', task_name = ''Fix Bug'' \<rparr>"
    by (simp add: toLowerCase_Fix_Bug toLowerCase_other)
  note both = findTaskIDByName_first_match[OF h, of example_tasksOf "''fix bug''"]
  from both[THEN conjunct2, rule_format,
      of "[]" "Node ''L1'' ''Sprint'' ''list'' []" "[Node ''L2'' ''Later'' ''list'' []]"
         "[\<lparr> task_id = ''a1'', task_name = ''Write docs'' \<rparr>,
           \<lparr> task_id = ''a2'', task_name = ''Fix Bug'' \<rparr>]"
         "\<lparr> task_id = ''a2'', task_name = ''Fix Bug'' \<rparr>"] t g f
  have r: "findTaskIDByName example_resolver ''fix bug'' = Some ''a2''"
    by simp
  from both[THEN conjunct1, THEN mp, OF example_fetches] r
  have s: "spec_resolveTaskId example_tasksOf example_root ''fix bug'' = Some ''a2''"
    by simp
  from h t r s show ?thesis
    by (simp add: example_resolver_def example_tasksOf_def)
qed

section \<open>Properties of the timer handlers\<close>







text \<open>
  \<open>handleStartTimer\<close> looks at the current timer before it starts one. For a request
  whose task id is given, or whose task name resolves, issued while a timer is running,
  it returns the \<open>success: false\<close> answer that names the running timer; it does not throw
  and does not call \<open>startTimer\<close>.
\<close>

lemma handleStartTimer_while_running:
  assumes "currentTimer tenv = Inr (Some t)"
    and "truthy (st_taskId parameters) \<or>
         (truthy (st_taskName parameters) \<and>
          truthy (findTaskIDByName renv (the (st_taskName parameters))))"
  shows "handleStartTimer renv tenv parameters =
         Inr (TimerNotStarted (alreadyRunningMessage t)
                \<lparr> rt_taskId = te_task_id t, rt_taskName = te_task_name t,
                  rt_started = te_start t, rt_description = te_description t \<rparr>) \<and>
         (\<forall>f. handleStartTimer renv (tenv \<lparr> startTimer := f \<rparr>) parameters =
              handleStartTimer renv tenv parameters)"
  using assms by (auto simp: handleStartTimer_def Let_def)

lemma handleStartTimer_busy_a2:
  "handleStartTimer example_resolver busy_env
     \<lparr> st_taskId = Some ''a2'', st_taskName = None, st_description = None,
       st_billable = None, st_tags = None \<rparr> =
   Inr (TimerNotStarted
          (''There'' @ [CHR 0x27] @ ''s already a timer running for task '' @ [CHR 0x22] @
           ''Write docs'' @ [CHR 0x22] @ ''. Please stop it first.'')
          \<lparr> rt_taskId = ''a1'', rt_taskName = ''Write docs'', rt_started = 1699999000000,
            rt_description = ''drafting'' \<rparr>)"
proof -
  have c: "currentTimer busy_env = Inr (Some example_timer)"
    by (simp add: busy_env_def)
  have r: "truthy (st_taskId \<lparr> st_taskId = Some ''a2'', st_taskName = None, st_description = None,
                              st_billable = None, st_tags = None \<rparr>)"
    by (simp add: truthy_def)
  from handleStartTimer_while_running[OF c disjI1, OF r, of example_resolver, THEN conjunct1]
  show ?thesis
    by (simp add: alreadyRunningMessage_def quoted_def example_timer_def)
qed

text \<open>
  \<open>startTimerTool.handler\<close> never reads the current timer: its answer is the same
  whatever timer is running, and it is never an answer that names a running timer.
\<close>

lemma startTimerTool_handler_ignores_current:
  "startTimerTool_handler renv (tenv \<lparr> tool_currentTimer := current \<rparr>) params =
   startTimerTool_handler renv tenv params"
proof -
  have s: "tool_startTimer (tenv \<lparr> tool_currentTimer := current \<rparr>) = tool_startTimer tenv"
    by simp
  have f: "findIDByNameInHierarchy (tenv \<lparr> tool_currentTimer := current \<rparr>) =
           findIDByNameInHierarchy tenv"
    by simp
  show ?thesis
    unfolding startTimerTool_handler_def s f by (rule refl)
qed

text \<open>
  Claim C8 on \<open>startTimerTool.handler\<close> of tools/timetracking.ts, for the request
  \<open>{ taskId: "a2" }\<close> issued while the timer of the task \<open>Write docs\<close> is running. The
  tool asks the service to start a timer and answers \<open>Timer started\<close>; it would give the
  same answer with any other current timer or with none. \<open>handleStartTimer\<close>, given the
  same request in the same situation, answers \<open>success: false\<close> and names the running
  timer.
\<close>

theorem startTimerTool_starts_while_running:
  "tool_currentTimer busy_tool_env = Inr (Some example_timer) \<and>
   startTimerTool_handler example_resolver busy_tool_env
     \<lparr> tp_taskId = Some ''a2'', tp_taskName = None, tp_listName = None,
       tp_description = None, tp_billable = None, tp_tags = None \<rparr> =
   StatusTimerStarted ''a2'' ''Fix Bug'' 1700000000000 '''' \<and>
   (\<forall>current.
      startTimerTool_handler example_resolver (busy_tool_env \<lparr> tool_currentTimer := current \<rparr>)
        \<lparr> tp_taskId = Some ''a2'', tp_taskName = None, tp_listName = None,
          tp_description = None, tp_billable = None, tp_tags = None \<rparr> =
      StatusTimerStarted ''a2'' ''Fix Bug'' 1700000000000 '''') \<and>
   currentTimer busy_env = Inr (Some example_timer) \<and>
   handleStartTimer example_resolver busy_env
     \<lparr> st_taskId = Some ''a2'', st_taskName = None, st_description = None,
       st_billable = None, st_tags = None \<rparr> =
   Inr (TimerNotStarted
          (''There'' @ [CHR 0x27] @ ''s already a timer running for task '' @ [CHR 0x22] @
           ''Write docs'' @ [CHR 0x22] @ ''. Please stop it first.'')
          \<lparr> rt_taskId = ''a1'', rt_taskName = ''Write docs'', rt_started = 1699999000000,
            rt_description = ''drafting'' \<rparr>)"
proof -
  have started:
    "startTimerTool_handler example_resolver busy_tool_env
       \<lparr> tp_taskId = Some ''a2'', tp_taskName = None, tp_listName = None,
         tp_description = None, tp_billable = None, tp_tags = None \<rparr> =
     StatusTimerStarted ''a2'' ''Fix Bug'' 1700000000000 ''''"
    by (simp add: startTimerTool_handler_def truthy_def busy_tool_env_def)
  show ?thesis
    by (simp add: started startTimerTool_handler_ignores_current handleStartTimer_busy_a2)
      (simp add: busy_tool_env_def busy_env_def)
qed

text \<open>
  When the current timer is \<open>null\<close>, every tool and resource built on it answers with its
  no-timer status, not with an error; and both \<open>getCurrentTimer\<close> methods return \<open>null\<close>
  for a payload without an entry.
\<close>

lemma no_timer_is_a_value:
  "getCurrentTimer (Inr (Body None)) = Inr None \<and>
   getCurrentTimer (Inr EmptyData) = Inr None \<and>
   TimeTrackingService_getCurrentTimer (Inr (Body None)) = Inr None \<and>
   handleGetCurrentTimer (Inr None) now = NoTimerRunning ''No timer is currently running'' \<and>
   getCurrentTimerTool_handler (Inr None) now = StatusNoTimerRunning \<and>
   getCurrentTimerAsText cal (Inr None) now =
     ''# Timer Status'' @ [CHR 0x0A, CHR 0x0A] @ ''No timer is currently running.'' \<and>
   handleStopTimer (Inr None) stopped = StopNotRunning ''No timer is currently running''"
  by (simp add: getCurrentTimer_def TimeTrackingService_getCurrentTimer_def
      handleGetCurrentTimer_def getCurrentTimerTool_handler_def getCurrentTimerAsText_def
      handleStopTimer_def)

lemma TimeTrackingService_getCurrentTimer_rethrows:
  "\<exists>e. TimeTrackingService_getCurrentTimer (Inl error) = Inl e"
  by (cases error) (simp_all add: TimeTrackingService_getCurrentTimer_def)

text \<open>
  Claim C10 on \<open>TimeTrackingService.getCurrentTimer\<close>, the method that the handlers
  call, for a request that the upstream service answers with 404. Its comment promises
  \<open>null\<close> if no timer is running, and \<open>getCurrentTimer\<close> of
  services/clickup/timetracking.ts returns \<open>null\<close> on that answer. This method has no
  case for it: its \<open>catch\<close> rethrows every failure that reaches it, whatever its form, and
  \<open>handleGetCurrentTimer\<close> then answers with an error text instead of \<open>running: false\<close>.
\<close>

theorem current_timer_404_is_rethrown:
  "getCurrentTimer (Inl (AxiosError ''Request failed with status code 404'' (Some 404))) =
     Inr None \<and>
   TimeTrackingService_getCurrentTimer
     (Inl (AxiosError ''Request failed with status code 404'' (Some 404))) =
     Inl (ClickUpServiceError ''Failed to get current timer: Request failed with status code 404'') \<and>
   handleGetCurrentTimer
     (TimeTrackingService_getCurrentTimer
        (Inl (AxiosError ''Request failed with status code 404'' (Some 404)))) 1700000000000 =
     CurrentTimerErrorText
       ''Error getting current timer: Failed to get current timer: Request failed with status code 404'' \<and>
   (\<forall>error. \<exists>e. TimeTrackingService_getCurrentTimer (Inl error) = Inl e) \<and>
   (\<forall>error now. \<exists>m. handleGetCurrentTimer (TimeTrackingService_getCurrentTimer (Inl error)) now =
                       CurrentTimerErrorText m)"
proof -
  have "\<exists>m. handleGetCurrentTimer (TimeTrackingService_getCurrentTimer (Inl error)) now =
             CurrentTimerErrorText m" for error now
    using TimeTrackingService_getCurrentTimer_rethrows[of error]
    by (auto simp: handleGetCurrentTimer_def)
  then show ?thesis
    using TimeTrackingService_getCurrentTimer_rethrows
    by (simp add: getCurrentTimer_def TimeTrackingService_getCurrentTimer_def
        handleGetCurrentTimer_def)
qed

end
